theory Spec2Isabelle
  imports Main "HOL-Library.List_Lexorder" "HOL-Library.Char_ord" "HOL-Library.Product_Lexorder"
begin

section \<open>Conversation memory (langgraph\_agent.py, agent\_conversations)\<close>

text \<open>
  The module keeps one global dictionary \<^verbatim>\<open>agent_conversations\<close> from patient
  identifiers to lists of \<^verbatim>\<open>{"role": ..., "content": ...}\<close> dictionaries. The
  dictionary is a partial map, an entry is a record, and the two functions that touch
  it take the dictionary and return the updated one.
\<close>

record entry =
  role :: string
  content :: string

type_synonym conversations = "string \<rightharpoonup> entry list"

text \<open>Python's \<^verbatim>\<open>xs[-n:]\<close> for \<open>n > 0\<close>: the last \<open>n\<close> elements, all of \<open>xs\<close> when it is shorter.\<close>

definition slice_last :: "nat \<Rightarrow> 'a list \<Rightarrow> 'a list" where
  "slice_last n xs = drop (length xs - n) xs"

text \<open>
  \<^verbatim>\<open>get_agent_history\<close>: a missing patient is first given the empty list; the
  stored list is returned.
\<close>

definition get_agent_history :: "conversations \<Rightarrow> string \<Rightarrow> entry list \<times> conversations" where
  "get_agent_history convs patient_id =
     (case convs patient_id of
        None \<Rightarrow> ([], convs(patient_id \<mapsto> []))
      | Some h \<Rightarrow> (h, convs))"

text \<open>
  \<^verbatim>\<open>add_to_agent_history\<close>: initialise a missing patient, append the entry, and
  when the list is longer than 10 replace it by its last 10 elements.
\<close>

definition add_to_agent_history :: "conversations \<Rightarrow> string \<Rightarrow> string \<Rightarrow> string \<Rightarrow> conversations" where
  "add_to_agent_history convs patient_id r c =
     (let convs1 = (case convs patient_id of None \<Rightarrow> convs(patient_id \<mapsto> []) | Some _ \<Rightarrow> convs);
          h = (case convs1 patient_id of None \<Rightarrow> [] | Some h0 \<Rightarrow> h0);
          h1 = h @ [\<lparr>role = r, content = c\<rparr>];
          convs2 = convs1(patient_id \<mapsto> h1)
      in if length h1 > 10 then convs2(patient_id \<mapsto> slice_last 10 h1) else convs2)"

text \<open>
  A caller's use of the memory is a sequence of calls of the two functions, for any
  patients in any order, starting from the empty dictionary the module creates.
\<close>

datatype mem_call = Get_history string | Add_to_history string string string

fun mem_step :: "conversations \<Rightarrow> mem_call \<Rightarrow> conversations" where
  "mem_step convs (Get_history p) = snd (get_agent_history convs p)"
| "mem_step convs (Add_to_history p r c) = add_to_agent_history convs p r c"

definition mem_run :: "conversations \<Rightarrow> mem_call list \<Rightarrow> conversations" where
  "mem_run convs calls = foldl mem_step convs calls"

text \<open>What the memory holds for a patient, and the entries a call sequence appends for them.\<close>

definition stored :: "conversations \<Rightarrow> string \<Rightarrow> entry list" where
  "stored convs p = (case convs p of None \<Rightarrow> [] | Some h \<Rightarrow> h)"

fun appended :: "string \<Rightarrow> mem_call list \<Rightarrow> entry list" where
  "appended p [] = []"
| "appended p (Get_history q # cs) = appended p cs"
| "appended p (Add_to_history q r c # cs) =
     (if q = p then \<lparr>role = r, content = c\<rparr> # appended p cs else appended p cs)"

text \<open>A concrete call sequence that appends eleven entries for patient \<open>p1\<close>.\<close>

definition eleven_appends :: "mem_call list" where
  "eleven_appends =
     [Add_to_history ''p1'' ''user'' ''m01'', Add_to_history ''p1'' ''assistant'' ''m02'',
      Add_to_history ''p2'' ''user'' ''other'', Add_to_history ''p1'' ''user'' ''m03'',
      Add_to_history ''p1'' ''assistant'' ''m04'', Get_history ''p1'',
      Add_to_history ''p1'' ''user'' ''m05'', Add_to_history ''p1'' ''assistant'' ''m06'',
      Add_to_history ''p1'' ''user'' ''m07'', Add_to_history ''p1'' ''assistant'' ''m08'',
      Add_to_history ''p1'' ''user'' ''m09'', Add_to_history ''p1'' ''assistant'' ''m10'',
      Add_to_history ''p1'' ''user'' ''m11'']"

section \<open>Python values the services use\<close>

subsection \<open>Exceptions\<close>

text \<open>
  A raised exception is a value: its class and the text \<^verbatim>\<open>str(e)\<close> gives. All the
  classes are subclasses of \<^verbatim>\<open>Exception\<close>, which is what the \<^verbatim>\<open>except Exception\<close>
  clauses of the services catch. A computation that may raise returns \<open>exn + 'a\<close>,
  with \<open>Inl\<close> for the exception; one that also changes the data store returns that
  together with the store it leaves behind.
\<close>

datatype exn =
    ValueError string
  | FileNotFoundError string
  | IndexError string
  | GraphRecursionError string
  | OtherError string

fun str_exn :: "exn \<Rightarrow> string" where
  "str_exn (ValueError m) = m"
| "str_exn (FileNotFoundError m) = m"
| "str_exn (IndexError m) = m"
| "str_exn (GraphRecursionError m) = m"
| "str_exn (OtherError m) = m"

fun is_ValueError :: "exn \<Rightarrow> bool" where
  "is_ValueError (ValueError m) = True"
| "is_ValueError e = False"

fun is_FileNotFoundError :: "exn \<Rightarrow> bool" where
  "is_FileNotFoundError (FileNotFoundError m) = True"
| "is_FileNotFoundError e = False"

subsection \<open>Strings\<close>

text \<open>
  A string is a list of characters, and a character is a code point below 256 (the
  Latin-1 range); texts with other code points are outside the model. On these code
  points the functions below are Python's: \<^verbatim>\<open>str.isspace\<close> (which is also the class
  \<^verbatim>\<open>\s\<close> of \<^verbatim>\<open>re\<close> and what \<^verbatim>\<open>str.strip\<close> removes) holds for the
  six ASCII blanks, the four separators 0x1C to 0x1F, NEL (0x85) and the no-break space
  (0xA0); \<^verbatim>\<open>\d\<close> matches the ten ASCII digits only; \<^verbatim>\<open>str.lower\<close> maps
  \<^verbatim>\<open>A-Z\<close> and the capital letters 0xC0 to 0xDE (but not the sign 0xD7) to the letter
  32 places on.
\<close>

definition apostrophe :: string where
  "apostrophe = [CHR 0x27]"

definition newline :: string where
  "newline = [CHR 0x0A]"

definition is_space :: "char \<Rightarrow> bool" where
  "is_space c = (c \<in> set [CHR 0x20, CHR 0x09, CHR 0x0A, CHR 0x0B, CHR 0x0C, CHR 0x0D,
                            CHR 0x1C, CHR 0x1D, CHR 0x1E, CHR 0x1F, CHR 0x85, CHR 0xA0])"


definition lower_char :: "char \<Rightarrow> char" where
  "lower_char c =
     (if (CHR ''A'' \<le> c \<and> c \<le> CHR ''Z'') \<or> (CHR 0xC0 \<le> c \<and> c \<le> CHR 0xDE \<and> c \<noteq> CHR 0xD7)
      then char_of (of_char c + (32::nat)) else c)"

definition lower :: "string \<Rightarrow> string" where
  "lower s = map lower_char s"

definition strip :: "string \<Rightarrow> string" where
  "strip s = rev (dropWhile is_space (rev (dropWhile is_space s)))"

text \<open>\<^verbatim>\<open>sub in s\<close>: \<open>sub\<close> occurs in \<open>s\<close> as a contiguous substring.\<close>

fun str_in :: "string \<Rightarrow> string \<Rightarrow> bool" where
  "str_in sub [] = (sub = [])"
| "str_in sub (c # cs) = (take (length sub) (c # cs) = sub \<or> str_in sub cs)"

text \<open>\<^verbatim>\<open>sep.join(xs)\<close>.\<close>

fun join :: "string \<Rightarrow> string list \<Rightarrow> string" where
  "join sep [] = []"
| "join sep [x] = x"
| "join sep (x # y # ys) = x @ sep @ join sep (y # ys)"

text \<open>\<^verbatim>\<open>str(n)\<close> of a natural number, and \<^verbatim>\<open>int(s)\<close> of a string of digits with blanks around it.\<close>

definition digit_char :: "nat \<Rightarrow> char" where
  "digit_char d = char_of (48 + d)"

fun str_nat_fuel :: "nat \<Rightarrow> nat \<Rightarrow> string" where
  "str_nat_fuel 0 n = [digit_char (n mod 10)]"
| "str_nat_fuel (Suc k) n =
     (if n < 10 then [digit_char n] else str_nat_fuel k (n div 10) @ [digit_char (n mod 10)])"

definition str_nat :: "nat \<Rightarrow> string" where
  "str_nat n = str_nat_fuel n n"

definition digit_val :: "char \<Rightarrow> nat" where
  "digit_val c = of_char c - 48"

definition int_str :: "string \<Rightarrow> nat" where
  "int_str s = foldl (\<lambda>acc c. 10 * acc + digit_val c) 0 (strip s)"

text \<open>
  \<^verbatim>\<open>repr(s)\<close>, which \<^verbatim>\<open>%r\<close> puts into the message of strptime's
  error: quoted with apostrophes, or with double quotes when the string has an
  apostrophe and no double quote; backslash, the quote and the characters that are not
  printable (below 0x20, 0x7F to 0xA0, 0xAD) escaped.
\<close>

definition hex_digit :: "nat \<Rightarrow> char" where
  "hex_digit d = (if d < 10 then char_of (48 + d) else char_of (87 + d))"

definition repr_char :: "char \<Rightarrow> char \<Rightarrow> string" where
  "repr_char quote c =
     (if c = CHR 0x5C then [CHR 0x5C, CHR 0x5C]
      else if c = quote then [CHR 0x5C, c]
      else if c = CHR 0x09 then [CHR 0x5C, CHR ''t'']
      else if c = CHR 0x0A then [CHR 0x5C, CHR ''n'']
      else if c = CHR 0x0D then [CHR 0x5C, CHR ''r'']
      else if (of_char c :: nat) < 32 \<or> (127 \<le> (of_char c :: nat) \<and> (of_char c :: nat) \<le> 160) \<or>
              (of_char c :: nat) = 173
        then [CHR 0x5C, CHR ''x'', hex_digit ((of_char c :: nat) div 16), hex_digit ((of_char c :: nat) mod 16)]
      else [c])"

definition repr :: "string \<Rightarrow> string" where
  "repr s =
     (let quote = (if CHR 0x27 \<in> set s \<and> CHR 0x22 \<notin> set s then CHR 0x22 else CHR 0x27)
      in [quote] @ concat (map (repr_char quote) s) @ [quote])"

subsection \<open>Naive datetimes\<close>

record datetime =
  year :: nat
  month :: nat
  day :: nat
  hour :: nat
  minute :: nat
  second :: nat
  microsecond :: nat

text \<open>Naive datetimes compare field by field, the year first.\<close>

definition dt_key :: "datetime \<Rightarrow> nat \<times> nat \<times> nat \<times> nat \<times> nat \<times> nat \<times> nat" where
  "dt_key d = (year d, month d, day d, hour d, minute d, second d, microsecond d)"

definition dt_ge :: "datetime \<Rightarrow> datetime \<Rightarrow> bool" where
  "dt_ge a b = (dt_key b \<le> dt_key a)"

definition dt_lt :: "datetime \<Rightarrow> datetime \<Rightarrow> bool" where
  "dt_lt a b = (dt_key a < dt_key b)"

definition is_leap :: "nat \<Rightarrow> bool" where
  "is_leap y = (y mod 4 = 0 \<and> (y mod 100 \<noteq> 0 \<or> y mod 400 = 0))"

definition days_in_month :: "nat \<Rightarrow> nat \<Rightarrow> nat" where
  "days_in_month y m =
     (if m = 2 then (if is_leap y then 29 else 28)
      else if m \<in> set [4, 6, 9, 11] then 30 else 31)"

subsection \<open>strptime with the format of the reminders\<close>

text \<open>
  Every call of \<^verbatim>\<open>datetime.strptime\<close> in the services has the format
  \<^verbatim>\<open>"%d %b %Y %I:%M %p"\<close>. CPython turns the format into the regular expression
  \<^verbatim>\<open>(?P<d>3[0-1]|[1-2]\d|0[1-9]|[1-9]| [1-9])\s+(?P<b>jan|...|dec)\s+(?P<Y>\d\d\d\d)\s+(?P<I>1[0-2]|0[1-9]|[1-9]):(?P<M>[0-5]\d|\d)\s+(?P<p>am|pm)\<close>
  (the month and am/pm names of the C locale), compiled with \<^verbatim>\<open>IGNORECASE\<close>, matches
  it at the start of the string, and raises \<^verbatim>\<open>ValueError\<close> when there is no match,
  when the match leaves text over, or when the date does not exist.

  A piece of the expression maps a string to the matches it has there, each the text
  it consumed and the rest, in the order a backtracking matcher tries them; the first
  element of the list of a whole expression is the match \<^verbatim>\<open>re.match\<close> returns.
\<close>

type_synonym regex = "string \<Rightarrow> (string \<times> string) list"

fun re_class :: "string \<Rightarrow> regex" where
  "re_class cls [] = []"
| "re_class cls (c # cs) = (if c \<in> set cls then [([c], cs)] else [])"

fun re_lit :: "string \<Rightarrow> regex" where
  "re_lit [] s = [([], s)]"
| "re_lit (l # ls) [] = []"
| "re_lit (l # ls) (c # cs) =
     (if lower_char c = lower_char l then map (\<lambda>(m, r). (c # m, r)) (re_lit ls cs) else [])"

definition re_seq :: "regex \<Rightarrow> regex \<Rightarrow> regex" where
  "re_seq p q s = concat (map (\<lambda>(a, r). map (\<lambda>(b, r'). (a @ b, r')) (q r)) (p s))"

definition re_alts :: "regex list \<Rightarrow> regex" where
  "re_alts ps s = concat (map (\<lambda>p. p s) ps)"

text \<open>\<^verbatim>\<open>\s+\<close> is greedy: the longest run first, shorter ones on backtracking.\<close>

fun re_spaces :: regex where
  "re_spaces [] = []"
| "re_spaces (c # cs) =
     (if is_space c then map (\<lambda>(m, r). (c # m, r)) (re_spaces cs) @ [([c], cs)] else [])"

definition re_digit :: regex where
  "re_digit = re_class ''0123456789''"

definition re_d :: regex where
  "re_d = re_alts [re_seq (re_lit ''3'') (re_class ''01''),
                   re_seq (re_class ''12'') re_digit,
                   re_seq (re_lit ''0'') (re_class ''123456789''),
                   re_class ''123456789'',
                   re_seq (re_lit '' '') (re_class ''123456789'')]"

definition month_abbr :: "string list" where
  "month_abbr = [''jan'', ''feb'', ''mar'', ''apr'', ''may'', ''jun'',
                 ''jul'', ''aug'', ''sep'', ''oct'', ''nov'', ''dec'']"

definition re_b :: regex where
  "re_b = re_alts (map re_lit month_abbr)"

definition re_Y :: regex where
  "re_Y = re_seq re_digit (re_seq re_digit (re_seq re_digit re_digit))"

definition re_I :: regex where
  "re_I = re_alts [re_seq (re_lit ''1'') (re_class ''012''),
                   re_seq (re_lit ''0'') (re_class ''123456789''),
                   re_class ''123456789'']"

definition re_M :: regex where
  "re_M = re_alts [re_seq (re_class ''012345'') re_digit, re_digit]"

definition re_p :: regex where
  "re_p = re_alts [re_lit ''am'', re_lit ''pm'']"

text \<open>
  The expressions of the formats \<^verbatim>\<open>"%d %b %Y"\<close> and \<^verbatim>\<open>"%I:%M %p"\<close>, each with the
  texts of its three groups, and the expression of \<^verbatim>\<open>"%d %b %Y %I:%M %p"\<close>, which is
  the first, \<^verbatim>\<open>\s+\<close> and the second in sequence.
\<close>

definition date_regex :: "string \<Rightarrow> ((string \<times> string \<times> string) \<times> string) list" where
  "date_regex s =
     concat (map (\<lambda>(d, r1). concat (map (\<lambda>(w1, r2). concat (map (\<lambda>(b, r3).
     concat (map (\<lambda>(w2, r4). map (\<lambda>(y, r5). ((d, b, y), r5)) (re_Y r4))
       (re_spaces r3))) (re_b r2))) (re_spaces r1))) (re_d s))"

definition time_regex :: "string \<Rightarrow> ((string \<times> string \<times> string) \<times> string) list" where
  "time_regex s =
     concat (map (\<lambda>(i, r1). concat (map (\<lambda>(colon, r2). concat (map (\<lambda>(m, r3).
     concat (map (\<lambda>(w, r4). map (\<lambda>(p, r5). ((i, m, p), r5)) (re_p r4))
       (re_spaces r3))) (re_M r2))) (re_lit '':'' r1))) (re_I s))"

definition format_regex ::
  "string \<Rightarrow> (((string \<times> string \<times> string) \<times> (string \<times> string \<times> string)) \<times> string) list" where
  "format_regex s =
     concat (map (\<lambda>(dby, r1). concat (map (\<lambda>(w, r2).
       map (\<lambda>(imp, r3). ((dby, imp), r3)) (time_regex r2)) (re_spaces r1))) (date_regex s))"

fun index_of :: "string \<Rightarrow> string list \<Rightarrow> nat" where
  "index_of x [] = 0"
| "index_of x (y # ys) = (if x = y then 0 else Suc (index_of x ys))"

text \<open>
  The values of the groups. A date is checked when the \<^verbatim>\<open>date\<close> object is made: the
  year must not be 0 and the day must exist in the month. The hour of a 12-hour clock
  with am or pm becomes the hour of the day.
\<close>

definition date_fields :: "string \<times> string \<times> string \<Rightarrow> exn + nat \<times> nat \<times> nat" where
  "date_fields g =
     (case g of (d, b, y) \<Rightarrow>
        (let yr = int_str y;
             mo = Suc (index_of (lower b) month_abbr);
             dy = int_str d
         in if yr < 1 then Inl (ValueError (''year '' @ str_nat yr @ '' is out of range''))
            else if days_in_month yr mo < dy then Inl (ValueError ''day is out of range for month'')
            else Inr (yr, mo, dy)))"

definition time_fields :: "string \<times> string \<times> string \<Rightarrow> nat \<times> nat" where
  "time_fields g =
     (case g of (i, m, p) \<Rightarrow>
        (let hr0 = int_str i;
             hr = (if lower p = ''am'' then (if hr0 = 12 then 0 else hr0)
                   else (if hr0 \<noteq> 12 then hr0 + 12 else hr0))
         in (hr, int_str m)))"

definition no_match :: "string \<Rightarrow> string \<Rightarrow> exn" where
  "no_match data_string format =
     ValueError (''time data '' @ repr data_string @ '' does not match format '' @ repr format)"

definition unconverted :: "string \<Rightarrow> exn" where
  "unconverted rest = ValueError (''unconverted data remains: '' @ rest)"

text \<open>
  \<^verbatim>\<open>datetime.strptime(data_string, "%d %b %Y %I:%M %p")\<close>, the call the tools make on
  \<^verbatim>\<open>f"{date} {time}"\<close>.
\<close>

definition reminder_format :: string where
  "reminder_format = ''%d %b %Y %I:%M %p''"

definition strptime :: "string \<Rightarrow> exn + datetime" where
  "strptime data_string =
     (case format_regex data_string of
        [] \<Rightarrow> Inl (no_match data_string reminder_format)
      | ((dby, imp), rest) # others \<Rightarrow>
          if rest \<noteq> [] then Inl (unconverted rest)
          else
            (case date_fields dby of
               Inl e \<Rightarrow> Inl e
             | Inr (yr, mo, dy) \<Rightarrow>
                 (case time_fields imp of
                    (hr, mi) \<Rightarrow>
                      Inr \<lparr>year = yr, month = mo, day = dy, hour = hr, minute = mi,
                           second = 0, microsecond = 0\<rparr>)))"





definition extends :: "regex \<Rightarrow> bool" where
  "extends p = (\<forall>m r s x. (m, r) \<in> set (p s) \<longrightarrow> (m, r @ x) \<in> set (p (s @ x)))"
section \<open>The data store and the clock\<close>

text \<open>
  Modelled from the spec: the data store behind \<^verbatim>\<open>get_supabase_client()\<close>
  (\<^verbatim>\<open>app/services/supabase_client.py\<close> and the remote store are not among the sources).
  The spec gives its interface: \<^verbatim>\<open>insert(table, record)\<close> returns the inserted record
  or fails; \<^verbatim>\<open>select(table).filter(field=value)...order(field, asc)...execute()\<close>
  returns rows; \<^verbatim>\<open>delete(table).filter(id=value).execute()\<close>; the tables are
  \<^verbatim>\<open>reminders\<close> and \<^verbatim>\<open>emergency_alerts\<close>. A reminder has an opaque id, the owning pair
  identifier, a title, and its date and time as the texts they were created with.

  The store may also fail. How it answers the requests to come is part of the state: a
  list with one outcome per request, in order (a request past the end of the list is
  served). A served request does what the interface says; a request answered with no
  rows changes nothing and returns no data; a raised request changes nothing either.
  Obtaining the client can raise as well.

  Neither the sources nor the interface say how the store compares two values of a
  field when it orders rows. The comparison is therefore part of the state too:
  \<open>collation w a b\<close> says that the store of \<open>w\<close> puts the text \<open>a\<close> before or level
  with the text \<open>b\<close>. Ordering by \<^verbatim>\<open>date\<close> and then by \<^verbatim>\<open>time\<close> compares the
  dates, and the times of rows whose dates are level; rows that are level in both keep
  their order in the table.
\<close>

record reminder =
  reminder_id :: nat
  pair_id :: string
  title :: string
  date :: string
  time :: string

record alert =
  alert_pair_id :: string
  alert_type :: string
  reason :: string
  timestamp :: datetime
  status :: string

datatype outcome = Served | No_rows | Raised exn

record world =
  reminders :: "reminder list"
  emergency_alerts :: "alert list"
  next_id :: nat
  client_error :: "exn option"
  requests :: "outcome list"
  collation :: "string \<Rightarrow> string \<Rightarrow> bool"
  clock :: datetime

definition get_supabase_client :: "world \<Rightarrow> exn + unit" where
  "get_supabase_client w = (case client_error w of None \<Rightarrow> Inr () | Some e \<Rightarrow> Inl e)"

definition next_outcome :: "world \<Rightarrow> outcome \<times> world" where
  "next_outcome w =
     (case requests w of [] \<Rightarrow> (Served, w) | a # rest \<Rightarrow> (a, w\<lparr>requests := rest\<rparr>))"

definition insert_reminder ::
  "world \<Rightarrow> string \<Rightarrow> string \<Rightarrow> string \<Rightarrow> string \<Rightarrow> (exn + reminder list) \<times> world" where
  "insert_reminder w p t d tm =
     (case next_outcome w of
        (Raised e, w1) \<Rightarrow> (Inl e, w1)
      | (No_rows, w1) \<Rightarrow> (Inr [], w1)
      | (Served, w1) \<Rightarrow>
          (let row = \<lparr>reminder_id = next_id w1, pair_id = p, title = t, date = d, time = tm\<rparr>
           in (Inr [row], w1\<lparr>reminders := reminders w1 @ [row], next_id := Suc (next_id w1)\<rparr>)))"

definition row_before :: "(string \<Rightarrow> string \<Rightarrow> bool) \<Rightarrow> reminder \<Rightarrow> reminder \<Rightarrow> bool" where
  "row_before le a b =
     ((le (date a) (date b) \<and> \<not> le (date b) (date a)) \<or>
      (le (date a) (date b) \<and> le (date b) (date a) \<and> le (time a) (time b)))"

fun insert_row :: "(reminder \<Rightarrow> reminder \<Rightarrow> bool) \<Rightarrow> reminder \<Rightarrow> reminder list \<Rightarrow> reminder list" where
  "insert_row before x [] = [x]"
| "insert_row before x (y # ys) = (if before x y then x # y # ys else y # insert_row before x ys)"

definition order_rows :: "(string \<Rightarrow> string \<Rightarrow> bool) \<Rightarrow> reminder list \<Rightarrow> reminder list" where
  "order_rows le rows = foldr (insert_row (row_before le)) rows []"

definition select_reminders :: "world \<Rightarrow> string \<Rightarrow> bool \<Rightarrow> (exn + reminder list) \<times> world" where
  "select_reminders w p ordered =
     (case next_outcome w of
        (Raised e, w1) \<Rightarrow> (Inl e, w1)
      | (No_rows, w1) \<Rightarrow> (Inr [], w1)
      | (Served, w1) \<Rightarrow>
          (let rows = filter (\<lambda>r. pair_id r = p) (reminders w1)
           in (Inr (if ordered then order_rows (collation w1) rows else rows), w1)))"

definition delete_by_id :: "world \<Rightarrow> nat \<Rightarrow> (exn + unit) \<times> world" where
  "delete_by_id w i =
     (case next_outcome w of
        (Raised e, w1) \<Rightarrow> (Inl e, w1)
      | (No_rows, w1) \<Rightarrow> (Inr (), w1)
      | (Served, w1) \<Rightarrow>
          (Inr (), w1\<lparr>reminders := filter (\<lambda>r. reminder_id r \<noteq> i) (reminders w1)\<rparr>))"

definition insert_alert :: "world \<Rightarrow> alert \<Rightarrow> (exn + unit) \<times> world" where
  "insert_alert w a =
     (case next_outcome w of
        (Raised e, w1) \<Rightarrow> (Inl e, w1)
      | (No_rows, w1) \<Rightarrow> (Inr (), w1)
      | (Served, w1) \<Rightarrow> (Inr (), w1\<lparr>emergency_alerts := emergency_alerts w1 @ [a]\<rparr>))"

section \<open>The tools (agent\_tools.py)\<close>

text \<open>
  Each tool is a \<^verbatim>\<open>try\<close> block whose \<^verbatim>\<open>except Exception\<close> clause turns any
  exception into a text. The body is a function of its own, returning either the
  exception it raises or its text, and the store as it leaves it; the tool applies the
  handler to that.
\<close>

subsection \<open>create\_reminder\<close>

definition create_reminder_body ::
  "world \<Rightarrow> string \<Rightarrow> string \<Rightarrow> string \<Rightarrow> string \<Rightarrow> (exn + string) \<times> world" where
  "create_reminder_body w p t d tm =
     (case strptime (d @ '' '' @ tm) of
        Inl e \<Rightarrow>
          (if is_ValueError e
           then (Inr (''Error: Invalid date/time format. Please use '' @ apostrophe @ ''dd MMM yyyy'' @
                      apostrophe @ '' for date and '' @ apostrophe @ ''hh:mm AM/PM'' @ apostrophe @
                      '' for time. Error: '' @ str_exn e), w)
           else (Inl e, w))
      | Inr parsed \<Rightarrow>
          (case get_supabase_client w of
             Inl e \<Rightarrow> (Inl e, w)
           | Inr supabase \<Rightarrow>
               (case insert_reminder w p t d tm of
                  (Inl e, w1) \<Rightarrow> (Inl e, w1)
                | (Inr data, w1) \<Rightarrow>
                    (if data = [] then (Inr ''Error: Failed to create reminder in database'', w1)
                     else (Inr (''Reminder created successfully! I'll remind you about '' @ apostrophe @ t @
                                apostrophe @ '' on '' @ d @ '' at '' @ tm @ ''.''), w1)))))"

definition create_reminder ::
  "world \<Rightarrow> string \<Rightarrow> string \<Rightarrow> string \<Rightarrow> string \<Rightarrow> (exn + string) \<times> world" where
  "create_reminder w p t d tm =
     (case create_reminder_body w p t d tm of
        (Inl e, w1) \<Rightarrow> (Inr (''Error: Failed to create reminder - '' @ str_exn e), w1)
      | (Inr s, w1) \<Rightarrow> (Inr s, w1))"

subsection \<open>list\_reminders\<close>

text \<open>
  The filtering loop: a reminder whose date and time parse and are not before \<open>now\<close> is
  appended to \<^verbatim>\<open>upcoming_reminders\<close>; when parsing raises, the bare \<^verbatim>\<open>except\<close>
  goes on with the next reminder.
\<close>

fun upcoming_loop :: "datetime \<Rightarrow> reminder list \<Rightarrow> reminder list \<Rightarrow> reminder list" where
  "upcoming_loop now [] upcoming_reminders = upcoming_reminders"
| "upcoming_loop now (r # rs) upcoming_reminders =
     (case strptime (date r @ '' '' @ time r) of
        Inl e \<Rightarrow> upcoming_loop now rs upcoming_reminders
      | Inr reminder_dt \<Rightarrow>
          (if dt_ge reminder_dt now then upcoming_loop now rs (upcoming_reminders @ [r])
           else upcoming_loop now rs upcoming_reminders))"

text \<open>The formatting loop over \<^verbatim>\<open>enumerate(upcoming_reminders, 1)\<close>.\<close>

definition reminder_line :: "nat \<Rightarrow> reminder \<Rightarrow> string" where
  "reminder_line idx r = str_nat idx @ ''. '' @ title r @ '' - '' @ date r @ '' at '' @ time r"

fun format_loop :: "nat \<Rightarrow> reminder list \<Rightarrow> string list \<Rightarrow> string list" where
  "format_loop idx [] reminder_list = reminder_list"
| "format_loop idx (r # rs) reminder_list =
     format_loop (Suc idx) rs (reminder_list @ [reminder_line idx r])"

definition no_reminders_set :: string where
  "no_reminders_set = ''You don't have any reminders set right now.''"

definition all_reminders_passed :: string where
  "all_reminders_passed = ''All your reminders have passed. You don't have any upcoming reminders.''"

definition list_reminders_body :: "world \<Rightarrow> string \<Rightarrow> (exn + string) \<times> world" where
  "list_reminders_body w p =
     (case get_supabase_client w of
        Inl e \<Rightarrow> (Inl e, w)
      | Inr supabase \<Rightarrow>
          (case select_reminders w p True of
             (Inl e, w1) \<Rightarrow> (Inl e, w1)
           | (Inr data, w1) \<Rightarrow>
               (if data = [] then (Inr no_reminders_set, w1)
                else
                  (let now = clock w1;
                       upcoming_reminders = upcoming_loop now data []
                   in if upcoming_reminders = [] then (Inr all_reminders_passed, w1)
                      else
                        (let reminder_list = format_loop 1 upcoming_reminders []
                         in (Inr (''You have '' @ str_nat (length upcoming_reminders) @
                                  '' upcoming reminder(s):'' @ newline @ join newline reminder_list), w1))))))"

definition list_reminders :: "world \<Rightarrow> string \<Rightarrow> (exn + string) \<times> world" where
  "list_reminders w p =
     (case list_reminders_body w p of
        (Inl e, w1) \<Rightarrow> (Inr (''Error: Failed to fetch reminders - '' @ str_exn e), w1)
      | (Inr s, w1) \<Rightarrow> (Inr s, w1))"

subsection \<open>delete\_reminder\<close>

definition title_matches :: "string \<Rightarrow> reminder \<Rightarrow> bool" where
  "title_matches reminder_title r = str_in (lower reminder_title) (lower (title r))"

definition delete_reminder_body :: "world \<Rightarrow> string \<Rightarrow> string \<Rightarrow> (exn + string) \<times> world" where
  "delete_reminder_body w p reminder_title =
     (case get_supabase_client w of
        Inl e \<Rightarrow> (Inl e, w)
      | Inr supabase \<Rightarrow>
          (case select_reminders w p False of
             (Inl e, w1) \<Rightarrow> (Inl e, w1)
           | (Inr data, w1) \<Rightarrow>
               (if data = [] then (Inr ''You don't have any reminders to delete.'', w1)
                else
                  (let matching_reminders = filter (title_matches reminder_title) data
                   in case matching_reminders of
                        [] \<Rightarrow>
                          (Inr (''I couldn't find a reminder matching '' @ apostrophe @ reminder_title @
                                apostrophe @ ''. Please check the reminder title and try again.''), w1)
                      | reminder_to_delete # others \<Rightarrow>
                          (if length matching_reminders > 1
                           then (Inr (''Found multiple reminders matching '' @ apostrophe @ reminder_title @
                                      apostrophe @ '': '' @ join '', '' (map title matching_reminders) @
                                      ''. Please be more specific.''), w1)
                           else
                             (case delete_by_id w1 (reminder_id reminder_to_delete) of
                                (Inl e, w2) \<Rightarrow> (Inl e, w2)
                              | (Inr u, w2) \<Rightarrow>
                                  (Inr (''I've deleted the reminder '' @ apostrophe @ title reminder_to_delete @
                                        apostrophe @ '' scheduled for '' @ date reminder_to_delete @
                                        '' at '' @ time reminder_to_delete @ ''.''), w2)))))))"

definition delete_reminder :: "world \<Rightarrow> string \<Rightarrow> string \<Rightarrow> (exn + string) \<times> world" where
  "delete_reminder w p reminder_title =
     (case delete_reminder_body w p reminder_title of
        (Inl e, w1) \<Rightarrow> (Inr (''Error: Failed to delete reminder - '' @ str_exn e), w1)
      | (Inr s, w1) \<Rightarrow> (Inr s, w1))"

subsection \<open>send\_emergency\_alert\<close>

definition send_emergency_alert_body :: "world \<Rightarrow> string \<Rightarrow> string \<Rightarrow> (exn + string) \<times> world" where
  "send_emergency_alert_body w p why =
     (case get_supabase_client w of
        Inl e \<Rightarrow> (Inl e, w)
      | Inr supabase \<Rightarrow>
          (let alert_data = \<lparr>alert_pair_id = p, alert_type = ''emergency'', reason = why,
                             timestamp = clock w, status = ''pending''\<rparr>;
               w1 = (case insert_alert w alert_data of
                       (Inl db_error, w') \<Rightarrow> w'
                     | (Inr u, w') \<Rightarrow> w')
           in (Inr ''I've notified your caregiver about this situation. Help is on the way. Please stay calm.'',
               w1)))"

definition send_emergency_alert :: "world \<Rightarrow> string \<Rightarrow> string \<Rightarrow> (exn + string) \<times> world" where
  "send_emergency_alert w p why =
     (case send_emergency_alert_body w p why of
        (Inl e, w1) \<Rightarrow> (Inr ''I'm here with you. Let me help you feel safe.'', w1)
      | (Inr s, w1) \<Rightarrow> (Inr s, w1))"

text \<open>
  The store serves the next request: the client can be obtained and the next outcome is
  \<open>Served\<close>.
\<close>

definition store_serves :: "world \<Rightarrow> bool" where
  "store_serves w = (client_error w = None \<and> (case requests w of [] \<Rightarrow> True | a # rest \<Rightarrow> a = Served))"

text \<open>The reminders of a pair as the table holds them, and those a title fragment matches.\<close>

definition pair_rows :: "world \<Rightarrow> string \<Rightarrow> reminder list" where
  "pair_rows w p = filter (\<lambda>r. pair_id r = p) (reminders w)"

definition matching_rows :: "world \<Rightarrow> string \<Rightarrow> string \<Rightarrow> reminder list" where
  "matching_rows w p fragment = filter (title_matches fragment) (pair_rows w p)"

text \<open>The store as it is once its next request has been answered.\<close>

definition after_request :: "world \<Rightarrow> world" where
  "after_request w = w\<lparr>requests := tl (requests w)\<rparr>"

text \<open>
  The rows list\_reminders gets from the store, and the test its loop applies to each:
  the date and time parse, and the parsed datetime is not strictly before \<open>now\<close>.
\<close>

definition ordered_rows :: "world \<Rightarrow> string \<Rightarrow> reminder list" where
  "ordered_rows w p = order_rows (collation w) (pair_rows w p)"

definition is_upcoming :: "datetime \<Rightarrow> reminder \<Rightarrow> bool" where
  "is_upcoming now r =
     (case strptime (date r @ '' '' @ time r) of Inl e \<Rightarrow> False | Inr dt \<Rightarrow> \<not> dt_lt dt now)"

text \<open>
  A list of reminders is in chronological order when, of any two of its reminders whose
  date and time both parse, the later one in the list is not strictly before the
  earlier one.
\<close>

definition not_after :: "reminder \<Rightarrow> reminder \<Rightarrow> bool" where
  "not_after a b =
     (case strptime (date a @ '' '' @ time a) of
        Inl e \<Rightarrow> True
      | Inr x \<Rightarrow> (case strptime (date b @ '' '' @ time b) of Inl e \<Rightarrow> True | Inr y \<Rightarrow> \<not> dt_lt y x))"

definition chronological :: "reminder list \<Rightarrow> bool" where
  "chronological rs = sorted_wrt not_after rs"

section \<open>Concrete stores for the examples\<close>

definition noon :: datetime where
  "noon = \<lparr>year = 2025, month = 1, day = 1, hour = 12, minute = 0, second = 0, microsecond = 0\<rparr>"

text \<open>
  In the example stores texts are compared character by character, by code point, as a
  database does with a text column under the plain (\<^verbatim>\<open>C\<close>) collation.
\<close>

definition by_code_point :: "string \<Rightarrow> string \<Rightarrow> bool" where
  "by_code_point a b = (a \<le> b)"

definition empty_world :: world where
  "empty_world = \<lparr>reminders = [], emergency_alerts = [], next_id = 1, client_error = None,
                   requests = [], collation = by_code_point, clock = noon\<rparr>"

text \<open>A store whose next request raises.\<close>

definition failing_world :: world where
  "failing_world = empty_world\<lparr>requests := [Raised (OtherError ''connection refused'')]\<rparr>"

text \<open>A store with three reminders of one pair and one of another.\<close>

definition pills :: reminder where
  "pills = \<lparr>reminder_id = 1, pair_id = ''pair-1'', title = ''Take Pills'',
            date = ''25 Jan 2025'', time = ''09:00 AM''\<rparr>"

definition doctor :: reminder where
  "doctor = \<lparr>reminder_id = 2, pair_id = ''pair-1'', title = ''Doctor appointment'',
             date = ''01 Feb 2025'', time = ''02:30 PM''\<rparr>"

definition dentist :: reminder where
  "dentist = \<lparr>reminder_id = 3, pair_id = ''pair-1'', title = ''Dentist appointment'',
              date = ''15 Mar 2025'', time = ''10:00 AM''\<rparr>"

definition walk :: reminder where
  "walk = \<lparr>reminder_id = 4, pair_id = ''pair-2'', title = ''Walk'',
           date = ''02 Jan 2025'', time = ''08:00 AM''\<rparr>"

definition three_reminders :: world where
  "three_reminders = empty_world\<lparr>reminders := [pills, walk, doctor, dentist], next_id := 5\<rparr>"

text \<open>
  A store where one reminder of the pair has passed and one has a date that does not
  parse; the clock stands at noon of 1 January 2025.
\<close>

definition passed :: reminder where
  "passed = \<lparr>reminder_id = 5, pair_id = ''pair-1'', title = ''New year call'',
             date = ''31 Dec 2024'', time = ''11:00 PM''\<rparr>"

definition malformed :: reminder where
  "malformed = \<lparr>reminder_id = 6, pair_id = ''pair-1'', title = ''Water plants'',
                date = ''tomorrow'', time = ''8pm''\<rparr>"

definition mixed_reminders :: world where
  "mixed_reminders = empty_world\<lparr>reminders := [pills, passed, walk, malformed, doctor], next_id := 7\<rparr>"

text \<open>
  Two ways of writing 5 January 2025, both accepted by \<^verbatim>\<open>%d\<close>, with an evening and a
  morning reminder each.
\<close>

definition evening_a :: reminder where
  "evening_a = \<lparr>reminder_id = 1, pair_id = ''pair-1'', title = ''Evening pills'',
                date = ''05 Jan 2025'', time = ''08:00 PM''\<rparr>"

definition morning_a :: reminder where
  "morning_a = \<lparr>reminder_id = 2, pair_id = ''pair-1'', title = ''Morning walk'',
                date = ''05 Jan 2025'', time = ''09:00 AM''\<rparr>"

definition evening_b :: reminder where
  "evening_b = \<lparr>reminder_id = 1, pair_id = ''pair-1'', title = ''Evening pills'',
                date = ''5 Jan 2025'', time = ''08:00 PM''\<rparr>"

definition morning_b :: reminder where
  "morning_b = \<lparr>reminder_id = 2, pair_id = ''pair-1'', title = ''Morning walk'',
                date = ''5 Jan 2025'', time = ''09:00 AM''\<rparr>"

text \<open>A reminder whose title has an accented capital letter.\<close>

definition cafe :: reminder where
  "cafe = \<lparr>reminder_id = 7, pair_id = ''pair-1'', title = ''CAF'' @ [CHR 0xC9] @ '' visit'',
           date = ''25 Jan 2025'', time = ''09:00 AM''\<rparr>"

section \<open>The agent (langgraph\_agent.py)\<close>

subsection \<open>Messages and state\<close>

text \<open>
  A tool-invocation request names a tool, carries its arguments (a dictionary from
  argument names to texts) and has an id. A message is a system, user, assistant or
  tool-result message; an assistant message has a text and its tool-invocation
  requests, a tool-result message its text, the tool's name and the id of the request
  it answers.
\<close>

record tool_call =
  call_name :: string
  call_args :: "(string \<times> string) list"
  call_id :: string

datatype message =
    SystemMessage string
  | HumanMessage string
  | AIMessage string "tool_call list"
  | ToolMessage string string string

record agent_state =
  messages :: "message list"
  state_pair_id :: string
  patient_id :: string

definition double_quote :: string where
  "double_quote = [CHR 0x22]"

definition AGENT_SYSTEM_PROMPT :: string where
  "AGENT_SYSTEM_PROMPT = concat (map (\<lambda>l. l @ newline)
     [''You are a compassionate AI companion for patients with cognitive challenges (dementia/Alzheimer's).'',
      [],
      ''Your role:'',
      ''- Provide warm, patient, and clear communication'',
      ''- Help manage daily tasks through reminders'',
      ''- Offer emotional support and reassurance'',
      ''- Monitor for signs of distress or danger'',
      ''- Use simple, short sentences (maximum 2 sentences per response)'',
      [],
      ''Available Tools:'',
      ''1. create_reminder: Set reminders for medication, appointments, tasks'',
      ''2. list_reminders: Show upcoming reminders'',
      ''3. delete_reminder: Cancel/remove reminders'',
      ''4. send_emergency_alert: Alert caregiver if patient is in danger (USE SPARINGLY - only for real emergencies)'',
      [],
      ''Guidelines:'',
      ''- Always use tools when the patient asks for reminder-related actions'',
      ''- Be proactive: If patient mentions taking medicine or appointments, suggest creating a reminder'',
      ''- Never show frustration or correct the patient harshly'',
      ''- Validate their feelings and provide reassurance'',
      ''- For emergency situations (fall, pain, severe confusion), use send_emergency_alert tool'',
      ''- Keep responses brief and warm'',
      [],
      ''Examples:'',
      ''- Patient: '' @ double_quote @ ''Remind me to take my pills at 8pm'' @ double_quote @ '' -> Use create_reminder tool'',
      ''- Patient: '' @ double_quote @ ''What do I need to do today?'' @ double_quote @ '' -> Use list_reminders tool'',
      ''- Patient: '' @ double_quote @ ''Cancel my appointment reminder'' @ double_quote @ '' -> Use delete_reminder tool'',
      ''- Patient: '' @ double_quote @ ''I fell and I can't get up'' @ double_quote @ '' -> Use send_emergency_alert tool immediately'',
      ''- Patient: '' @ double_quote @ ''I'm feeling sad'' @ double_quote @ '' -> Provide emotional support (no tool needed)''])"

subsection \<open>The model provider\<close>

text \<open>
  The provider is outside the sources. What the agent needs of it is in the
  environment: whether \<^verbatim>\<open>GEMINI_API_KEY\<close> is set, and what
  \<^verbatim>\<open>llm_with_tools.invoke(messages)\<close> does at each model turn of a run: it raises, or
  returns an assistant message (its text and its tool-invocation requests). The answer
  may depend on the number of the turn (a stub that plays a script) and on the messages
  it is given. The environment also holds the step limit of the graph library
  (\<^verbatim>\<open>recursion_limit\<close>, 25 unless configured).
\<close>

record agent_env =
  gemini_api_key :: "string option"
  invoke_llm :: "nat \<Rightarrow> message list \<Rightarrow> exn + (string \<times> tool_call list)"
  recursion_limit :: nat

text \<open>\<^verbatim>\<open>create_agent_llm\<close>: without a key it raises (the handler logs and raises again).\<close>

definition create_agent_llm :: "agent_env \<Rightarrow> exn + unit" where
  "create_agent_llm env =
     (case gemini_api_key env of
        None \<Rightarrow> Inl (ValueError ''GEMINI_API_KEY not found in environment'')
      | Some k \<Rightarrow> if k = [] then Inl (ValueError ''GEMINI_API_KEY not found in environment'')
                  else Inr ())"

subsection \<open>The nodes\<close>

definition trouble_now :: string where
  "trouble_now = ''I'm having trouble right now. Let me try to help you anyway.''"

text \<open>
  \<^verbatim>\<open>call_agent\<close> returns \<^verbatim>\<open>{"messages": [response]}\<close>, or, when creating the
  model or invoking it raises, \<^verbatim>\<open>{"messages": [error_msg]}\<close>. The result here is the
  list under \<^verbatim>\<open>"messages"\<close>; \<open>turn\<close> counts the model turns of the run.
\<close>

definition call_agent :: "agent_env \<Rightarrow> nat \<Rightarrow> agent_state \<Rightarrow> message list" where
  "call_agent env turn state =
     (case create_agent_llm env of
        Inl e \<Rightarrow> [AIMessage trouble_now []]
      | Inr llm_with_tools \<Rightarrow>
          (case invoke_llm env turn (SystemMessage AGENT_SYSTEM_PROMPT # messages state) of
             Inl e \<Rightarrow> [AIMessage trouble_now []]
           | Inr (text, calls) \<Rightarrow> [AIMessage text calls]))"

datatype route = To_tools | END

text \<open>
  \<^verbatim>\<open>should_continue\<close>: \<^verbatim>\<open>messages[-1]\<close> raises on an empty list; only an assistant
  message has \<^verbatim>\<open>tool_calls\<close>.
\<close>

definition should_continue :: "agent_state \<Rightarrow> exn + route" where
  "should_continue state =
     (case messages state of
        [] \<Rightarrow> Inl (IndexError ''list index out of range'')
      | m # ms \<Rightarrow>
          (case last (m # ms) of
             AIMessage text calls \<Rightarrow> if calls \<noteq> [] then Inr To_tools else Inr END
           | other \<Rightarrow> Inr END))"

text \<open>
  The tools node is the library's \<^verbatim>\<open>ToolNode(tools)\<close> over the four tools. It takes
  the requests of the last message, which must be an assistant message, runs each (here
  one after the other, in the order of the requests) and returns one tool-result
  message per request, with the request's id. A request for a name that is none of the
  four, or without one of the tool's arguments, gets an error text as its result; the
  tool is not run.
\<close>

definition tool_names :: "string list" where
  "tool_names = [''create_reminder'', ''list_reminders'', ''delete_reminder'', ''send_emergency_alert'']"

definition missing_argument :: "string \<Rightarrow> exn" where
  "missing_argument a = ValueError (''1 validation error: '' @ a @ '' Field required'')"

definition get_arg :: "tool_call \<Rightarrow> string \<Rightarrow> exn + string" where
  "get_arg call a =
     (case map_of (call_args call) a of None \<Rightarrow> Inl (missing_argument a) | Some v \<Rightarrow> Inr v)"

definition invoke_tool :: "world \<Rightarrow> tool_call \<Rightarrow> (exn + string) \<times> world" where
  "invoke_tool w call =
     (if call_name call = ''create_reminder'' then
        (case get_arg call ''pair_id'' of
           Inl e \<Rightarrow> (Inl e, w)
         | Inr p \<Rightarrow>
             (case get_arg call ''title'' of
                Inl e \<Rightarrow> (Inl e, w)
              | Inr t \<Rightarrow>
                  (case get_arg call ''date'' of
                     Inl e \<Rightarrow> (Inl e, w)
                   | Inr d \<Rightarrow>
                       (case get_arg call ''time'' of
                          Inl e \<Rightarrow> (Inl e, w)
                        | Inr tm \<Rightarrow> create_reminder w p t d tm))))
      else if call_name call = ''list_reminders'' then
        (case get_arg call ''pair_id'' of
           Inl e \<Rightarrow> (Inl e, w)
         | Inr p \<Rightarrow> list_reminders w p)
      else if call_name call = ''delete_reminder'' then
        (case get_arg call ''pair_id'' of
           Inl e \<Rightarrow> (Inl e, w)
         | Inr p \<Rightarrow>
             (case get_arg call ''reminder_title'' of
                Inl e \<Rightarrow> (Inl e, w)
              | Inr t \<Rightarrow> delete_reminder w p t))
      else
        (case get_arg call ''pair_id'' of
           Inl e \<Rightarrow> (Inl e, w)
         | Inr p \<Rightarrow>
             (case get_arg call ''reason'' of
                Inl e \<Rightarrow> (Inl e, w)
              | Inr why \<Rightarrow> send_emergency_alert w p why)))"

definition run_one :: "world \<Rightarrow> tool_call \<Rightarrow> message \<times> world" where
  "run_one w call =
     (if call_name call \<notin> set tool_names
      then (ToolMessage (''Error: '' @ call_name call @ '' is not a valid tool, try one of ['' @
                         join '', '' tool_names @ ''].'') (call_name call) (call_id call), w)
      else
        (case invoke_tool w call of
           (Inl e, w1) \<Rightarrow>
             (ToolMessage (''Error: '' @ str_exn e @ newline @ '' Please fix your mistakes.'')
                (call_name call) (call_id call), w1)
         | (Inr text, w1) \<Rightarrow> (ToolMessage text (call_name call) (call_id call), w1)))"

fun run_tools :: "world \<Rightarrow> tool_call list \<Rightarrow> message list \<times> world" where
  "run_tools w [] = ([], w)"
| "run_tools w (call # calls) =
     (case run_one w call of
        (m, w1) \<Rightarrow> (case run_tools w1 calls of (ms, w2) \<Rightarrow> (m # ms, w2)))"

definition tool_node :: "world \<Rightarrow> agent_state \<Rightarrow> (exn + message list) \<times> world" where
  "tool_node w state =
     (case messages state of
        [] \<Rightarrow> (Inl (ValueError ''No message found in input''), w)
      | m # ms \<Rightarrow>
          (case last (m # ms) of
             AIMessage text calls \<Rightarrow> (case run_tools w calls of (out, w1) \<Rightarrow> (Inr out, w1))
           | other \<Rightarrow> (Inl (ValueError ''Last message is not an AIMessage''), w)))"

subsection \<open>The graph\<close>

text \<open>
  \<^verbatim>\<open>create_agent_graph\<close> builds \<^verbatim>\<open>StateGraph(AgentState)\<close> with the nodes
  \<^verbatim>\<open>agent\<close> (the entry point) and \<^verbatim>\<open>tools\<close>, the conditional edge
  \<^verbatim>\<open>should_continue\<close> from \<^verbatim>\<open>agent\<close> to \<^verbatim>\<open>tools\<close> or to the end, and the edge from
  \<^verbatim>\<open>tools\<close> back to \<^verbatim>\<open>agent\<close>. It needs the model (for the list of tools), so it
  raises when there is no key.

  How the library merges what a node returns into the state is decided by the key's
  annotation in the state class: with a reducer function there (such as
  \<^verbatim>\<open>operator.add\<close>) the returned list is appended to the stored one; with none, the
  returned value replaces the stored one. \<^verbatim>\<open>AgentState\<close> annotates \<^verbatim>\<open>messages\<close> with
  \<^verbatim>\<open>Annotated[Sequence[BaseMessage], "The conversation messages"]\<close>: the annotation is
  a text, not a function, so the key has no reducer and each node's messages replace the
  sequence. The graph below is written for both kinds of key, so that what does not
  depend on the kind is proved for both; \<open>messages_channel\<close> is the kind the source has.
\<close>

datatype channel = Last_value | Appending

definition messages_channel :: channel where
  "messages_channel = Last_value"

definition merge_messages :: "channel \<Rightarrow> agent_state \<Rightarrow> message list \<Rightarrow> agent_state" where
  "merge_messages ch state new =
     (case ch of
        Last_value \<Rightarrow> state\<lparr>messages := new\<rparr>
      | Appending \<Rightarrow> state\<lparr>messages := messages state @ new\<rparr>)"

definition create_agent_graph :: "agent_env \<Rightarrow> exn + unit" where
  "create_agent_graph env = (case create_agent_llm env of Inl e \<Rightarrow> Inl e | Inr tools \<Rightarrow> Inr ())"

text \<open>
  One step of the graph runs one node on the current state and says how the run goes
  on: it is finished with a final state, it raised, or another node is next.
\<close>

datatype node = Agent_node | Tools_node

datatype progress =
    Finished agent_state world
  | Raising exn world
  | Next_node node nat agent_state world

fun graph_step :: "channel \<Rightarrow> agent_env \<Rightarrow> node \<Rightarrow> nat \<Rightarrow> agent_state \<Rightarrow> world \<Rightarrow> progress" where
  "graph_step ch env Agent_node turn state w =
     (let state1 = merge_messages ch state (call_agent env turn state)
      in case should_continue state1 of
           Inl e \<Rightarrow> Raising e w
         | Inr END \<Rightarrow> Finished state1 w
         | Inr To_tools \<Rightarrow> Next_node Tools_node (Suc turn) state1 w)"
| "graph_step ch env Tools_node turn state w =
     (case tool_node w state of
        (Inl e, w1) \<Rightarrow> Raising e w1
      | (Inr out, w1) \<Rightarrow> Next_node Agent_node turn (merge_messages ch state out) w1)"

text \<open>
  \<^verbatim>\<open>agent.invoke(initial_state)\<close> runs steps from the entry point until the run is
  finished. The library allows \<^verbatim>\<open>recursion_limit\<close> steps; a run that needs more raises
  \<^verbatim>\<open>GraphRecursionError\<close>. The first argument is the number of steps still allowed.
\<close>

fun run_steps ::
  "nat \<Rightarrow> channel \<Rightarrow> agent_env \<Rightarrow> node \<Rightarrow> nat \<Rightarrow> agent_state \<Rightarrow> world \<Rightarrow> (exn + agent_state) \<times> world" where
  "run_steps 0 ch env nd turn state w =
     (Inl (GraphRecursionError ''Recursion limit reached without hitting a stop condition''), w)"
| "run_steps (Suc n) ch env nd turn state w =
     (case graph_step ch env nd turn state w of
        Finished final w1 \<Rightarrow> (Inr final, w1)
      | Raising e w1 \<Rightarrow> (Inl e, w1)
      | Next_node nd1 turn1 state1 w1 \<Rightarrow> run_steps n ch env nd1 turn1 state1 w1)"

definition invoke :: "channel \<Rightarrow> agent_env \<Rightarrow> agent_state \<Rightarrow> world \<Rightarrow> (exn + agent_state) \<times> world" where
  "invoke ch env initial_state w = run_steps (recursion_limit env) ch env Agent_node 0 initial_state w"

subsection \<open>run\_agent\<close>

text \<open>
  The messages built from \<^verbatim>\<open>conversation_history\<close> (entries with another role are
  left out; no history and the empty history are the same).
\<close>

fun history_messages :: "entry list \<Rightarrow> message list" where
  "history_messages [] = []"
| "history_messages (msg # rest) =
     (if role msg = ''user'' then HumanMessage (content msg) # history_messages rest
      else if role msg = ''assistant'' then AIMessage (content msg) [] # history_messages rest
      else history_messages rest)"

definition here_to_help :: string where
  "here_to_help = ''I'm here to help. What would you like to know?''"

definition some_trouble :: string where
  "some_trouble = ''I'm having some trouble right now, but I'm here with you. How can I help?''"

text \<open>
  The loop over \<^verbatim>\<open>reversed(final_messages)\<close>: the text of the first assistant message
  with a text that is not empty, or the fallback.
\<close>

fun first_ai_text :: "message list \<Rightarrow> string" where
  "first_ai_text [] = here_to_help"
| "first_ai_text (AIMessage text calls # rest) = (if text \<noteq> [] then text else first_ai_text rest)"
| "first_ai_text (other # rest) = first_ai_text rest"

definition final_response :: "message list \<Rightarrow> string" where
  "final_response final_messages = first_ai_text (rev final_messages)"

text \<open>
  The part of the \<^verbatim>\<open>try\<close> block up to the end of \<^verbatim>\<open>agent.invoke\<close>, and the whole
  function: an exception anywhere in the block gives the fixed text of the handler.
\<close>

definition initial_state :: "string \<Rightarrow> string \<Rightarrow> string \<Rightarrow> entry list \<Rightarrow> agent_state" where
  "initial_state patient pair message conversation_history =
     \<lparr>messages = history_messages conversation_history @ [HumanMessage message],
      state_pair_id = pair, patient_id = patient\<rparr>"

definition run_graph ::
  "channel \<Rightarrow> agent_env \<Rightarrow> world \<Rightarrow> string \<Rightarrow> string \<Rightarrow> string \<Rightarrow> entry list \<Rightarrow> (exn + agent_state) \<times> world" where
  "run_graph ch env w patient pair message conversation_history =
     (case create_agent_graph env of
        Inl e \<Rightarrow> (Inl e, w)
      | Inr agent \<Rightarrow>
          invoke ch env (initial_state patient pair message conversation_history) w)"

definition run_agent_on ::
  "channel \<Rightarrow> agent_env \<Rightarrow> world \<Rightarrow> string \<Rightarrow> string \<Rightarrow> string \<Rightarrow> entry list \<Rightarrow> (exn + string) \<times> world" where
  "run_agent_on ch env w patient pair message conversation_history =
     (case run_graph ch env w patient pair message conversation_history of
        (Inl e, w1) \<Rightarrow> (Inr some_trouble, w1)
      | (Inr final_state, w1) \<Rightarrow> (Inr (final_response (messages final_state)), w1))"

definition run_agent ::
  "agent_env \<Rightarrow> world \<Rightarrow> string \<Rightarrow> string \<Rightarrow> string \<Rightarrow> entry list \<Rightarrow> (exn + string) \<times> world" where
  "run_agent = run_agent_on messages_channel"

section \<open>Speech to text (local\_whisper\_service.py, stt\_service.py)\<close>

text \<open>
  The transcription engines, the file system and the configuration are outside the
  sources; the environment says what they do. Audio bytes and file contents are
  strings of bytes. The online engine (\<^verbatim>\<open>client.audio.transcriptions.create\<close>) raises
  or returns a response, which either has a \<^verbatim>\<open>text\<close> attribute or is the text itself
  (as with \<^verbatim>\<open>response_format="text"\<close>). The offline engine is \<^verbatim>\<open>whisper.load_audio\<close>
  followed by \<^verbatim>\<open>model.transcribe\<close>, each of which may raise; \<^verbatim>\<open>load_whisper_model\<close>
  gives a model or \<^verbatim>\<open>None\<close>. Writing a temporary file may raise, and the file may be
  gone when it is looked for.
\<close>

datatype transcription = With_text string | Plain string

record stt_env =
  use_local_whisper :: bool
  read_file :: "string \<Rightarrow> exn + string"
  api_create :: "string \<Rightarrow> exn + transcription"
  model_loaded :: bool
  whisper_temp_error :: "exn option"
  whisper_temp_exists :: bool
  load_audio :: "string \<Rightarrow> exn + int list"
  model_transcribe :: "int list \<Rightarrow> exn + string"
  audio_temp_error :: "exn option"
  audio_temp_exists :: bool

subsection \<open>The offline path: transcribe\_audio\_from\_bytes\<close>

text \<open>
  The body of the \<^verbatim>\<open>try\<close> block. The \<^verbatim>\<open>finally\<close> clause only removes the temporary
  file and catches what that raises, so it does not change what is returned.
\<close>

definition from_bytes_body :: "stt_env \<Rightarrow> string \<Rightarrow> exn + string option" where
  "from_bytes_body env audio_bytes =
     (case whisper_temp_error env of
        Some e \<Rightarrow> Inl e
      | None \<Rightarrow>
          if \<not> whisper_temp_exists env then Inr None
          else
            (case load_audio env audio_bytes of
               Inl e \<Rightarrow> Inl e
             | Inr audio_array \<Rightarrow>
                 (case model_transcribe env audio_array of
                    Inl e \<Rightarrow> Inl e
                  | Inr raw \<Rightarrow>
                      (let text = strip raw
                       in if text = [] \<or> length text = 0 then Inr None else Inr (Some text)))))"

definition transcribe_audio_from_bytes :: "stt_env \<Rightarrow> string \<Rightarrow> string option" where
  "transcribe_audio_from_bytes env audio_bytes =
     (if \<not> model_loaded env then None
      else (case from_bytes_body env audio_bytes of Inl e \<Rightarrow> None | Inr r \<Rightarrow> r))"

subsection \<open>transcribe\_audio: the offline path when there is no API key, else the online path\<close>

fun response_text :: "transcription \<Rightarrow> string" where
  "response_text (With_text t) = t"
| "response_text (Plain t) = t"

text \<open>What is done with the opened file: \<open>opened\<close> is its content, or what opening it raised.\<close>

definition transcribe_opened :: "stt_env \<Rightarrow> exn + string \<Rightarrow> string option" where
  "transcribe_opened env opened =
     (if use_local_whisper env then
        (case opened of
           Inl e \<Rightarrow> None
         | Inr audio_bytes \<Rightarrow> transcribe_audio_from_bytes env audio_bytes)
      else
        (case opened of
           Inl e \<Rightarrow> None
         | Inr audio_file \<Rightarrow>
             (case api_create env audio_file of
                Inl e \<Rightarrow> None
              | Inr transcription \<Rightarrow> Some (response_text transcription))))"

definition transcribe_audio :: "stt_env \<Rightarrow> string \<Rightarrow> string option" where
  "transcribe_audio env audio_file_path = transcribe_opened env (read_file env audio_file_path)"

text \<open>
  \<^verbatim>\<open>transcribe_audio_bytes\<close> writes the bytes to a temporary file of its own, returns
  \<^verbatim>\<open>None\<close> when the file is gone or empty, and passes the file to
  \<^verbatim>\<open>transcribe_audio\<close>, which reads the bytes just written.
\<close>

definition transcribe_audio_bytes :: "stt_env \<Rightarrow> string \<Rightarrow> string option" where
  "transcribe_audio_bytes env audio_bytes =
     (case audio_temp_error env of
        Some e \<Rightarrow> None
      | None \<Rightarrow>
          if \<not> audio_temp_exists env then None
          else if length audio_bytes = 0 then None
          else transcribe_opened env (Inr audio_bytes))"

text \<open>
  Two environments in which the engine hears nothing in the audio and yields the empty
  text: one with an API key (the online path), one without (the offline path).
\<close>

definition silence_online :: stt_env where
  "silence_online =
     \<lparr>use_local_whisper = False, read_file = (\<lambda>path. Inr ''RIFF-silence''),
      api_create = (\<lambda>audio. Inr (Plain [])), model_loaded = True,
      whisper_temp_error = None, whisper_temp_exists = True,
      load_audio = (\<lambda>audio. Inr [0, 0, 0]), model_transcribe = (\<lambda>samples. Inr []),
      audio_temp_error = None, audio_temp_exists = True\<rparr>"

definition silence_offline :: stt_env where
  "silence_offline = silence_online\<lparr>use_local_whisper := True\<rparr>"

definition blank_online :: stt_env where
  "blank_online = silence_online\<lparr>api_create := (\<lambda>audio. Inr (With_text ''  ''))\<rparr>"

section \<open>Reachable steps of a run, and stub providers for the examples\<close>

text \<open>
  A configuration of a run: the steps still allowed, the node to run next, the number of
  model turns so far, the state and the store. \<open>passes ch env c c'\<close> holds when a run
  that is in configuration \<open>c\<close> gets to configuration \<open>c'\<close>.
\<close>

type_synonym config = "nat \<times> node \<times> nat \<times> agent_state \<times> world"

inductive passes :: "channel \<Rightarrow> agent_env \<Rightarrow> config \<Rightarrow> config \<Rightarrow> bool" for ch env c where
  start: "passes ch env c c"
| step: "passes ch env c (Suc n, nd, turn, state, w) \<Longrightarrow>
         graph_step ch env nd turn state w = Next_node nd1 turn1 state1 w1 \<Longrightarrow>
         passes ch env c (n, nd1, turn1, state1, w1)"

text \<open>
  A stub provider as in the round-trip test of the spec: on the first model turn it
  requests create\_reminder once; on every later turn it answers in plain text, with
  no request. Its plain text tells which kinds of messages it was given.
\<close>

definition reminder_request :: tool_call where
  "reminder_request =
     \<lparr>call_name = ''create_reminder'',
      call_args = [(''pair_id'', ''pair-1''), (''title'', ''Take medicine''),
                   (''date'', ''25 Dec 2025''), (''time'', ''08:00 PM'')],
      call_id = ''call-1''\<rparr>"

fun kind :: "message \<Rightarrow> string" where
  "kind (SystemMessage text) = ''system''"
| "kind (HumanMessage text) = ''user''"
| "kind (AIMessage text calls) = ''assistant''"
| "kind (ToolMessage text name i) = ''tool''"

definition echo_llm :: "nat \<Rightarrow> message list \<Rightarrow> exn + (string \<times> tool_call list)" where
  "echo_llm turn msgs =
     (if turn = 0 then Inr ([], [reminder_request])
      else Inr (''I was given: '' @ join '', '' (map kind msgs), []))"

definition echo_env :: agent_env where
  "echo_env = \<lparr>gemini_api_key = Some ''key'', invoke_llm = echo_llm, recursion_limit = 25\<rparr>"

text \<open>A provider that requests an emergency alert on the first turn and is unreachable afterwards.\<close>

definition alert_request :: tool_call where
  "alert_request =
     \<lparr>call_name = ''send_emergency_alert'',
      call_args = [(''pair_id'', ''pair-1''), (''reason'', ''I fell'')],
      call_id = ''call-7''\<rparr>"

definition dropping_llm :: "nat \<Rightarrow> message list \<Rightarrow> exn + (string \<times> tool_call list)" where
  "dropping_llm turn msgs =
     (if turn = 0 then Inr (''Let me get help.'', [alert_request])
      else Inl (OtherError ''503 service unavailable''))"

definition dropping_env :: agent_env where
  "dropping_env = \<lparr>gemini_api_key = Some ''key'', invoke_llm = dropping_llm, recursion_limit = 25\<rparr>"

text \<open>A provider that answers with an empty text, and an environment without a key.\<close>

definition silent_env :: agent_env where
  "silent_env = \<lparr>gemini_api_key = Some ''key'', invoke_llm = (\<lambda>turn msgs. Inr ([], [])),
                  recursion_limit = 25\<rparr>"

definition keyless_env :: agent_env where
  "keyless_env = \<lparr>gemini_api_key = None, invoke_llm = (\<lambda>turn msgs. Inr (''Hello.'', [])),
                   recursion_limit = 25\<rparr>"

text \<open>The store after the alert of \<open>alert_request\<close>, and the tool-result message for it.\<close>

definition alerted_world :: world where
  "alerted_world = empty_world\<lparr>emergency_alerts :=
        [\<lparr>alert_pair_id = ''pair-1'', alert_type = ''emergency'', reason = ''I fell'',
          timestamp = noon, status = ''pending''\<rparr>]\<rparr>"

definition alert_result :: message where
  "alert_result = ToolMessage ''I've notified your caregiver about this situation. Help is on the way. Please stay calm.''
                    ''send_emergency_alert'' ''call-7''"

text \<open>The store after the reminder of \<open>reminder_request\<close>, and the tool-result message for it.\<close>

definition reminded_world :: world where
  "reminded_world = empty_world\<lparr>reminders :=
        [\<lparr>reminder_id = 1, pair_id = ''pair-1'', title = ''Take medicine'',
          date = ''25 Dec 2025'', time = ''08:00 PM''\<rparr>], next_id := 2\<rparr>"

definition reminder_result :: message where
  "reminder_result =
     ToolMessage ''Reminder created successfully! I'll remind you about 'Take medicine' on 25 Dec 2025 at 08:00 PM.''
       ''create_reminder'' ''call-1''"

section \<open>Properties of the conversation memory\<close>

lemma slice_last_length: "length (slice_last n xs) = min n (length xs)"
  by (simp add: slice_last_def)

lemma slice_last_short: "length xs \<le> n \<Longrightarrow> slice_last n xs = xs"
  by (simp add: slice_last_def)

lemma slice_last_append: "slice_last n (slice_last n xs @ ys) = slice_last n (xs @ ys)"
  by (cases "length xs \<le> n") (simp_all add: slice_last_def add.commute)

lemma stored_get: "stored (snd (get_agent_history convs q)) p = stored convs p"
  by (simp add: get_agent_history_def stored_def split: option.splits)

lemma stored_add:
  "stored (add_to_agent_history convs q r c) p =
     (if q = p then slice_last 10 (stored convs p @ [\<lparr>role = r, content = c\<rparr>]) else stored convs p)"
  by (auto simp: add_to_agent_history_def stored_def Let_def slice_last_def split: option.splits)

lemma stored_mem_run:
  "length (stored convs p) \<le> 10 \<Longrightarrow>
   stored (mem_run convs calls) p = slice_last 10 (stored convs p @ appended p calls)"
proof (induction calls arbitrary: convs)
  case Nil
  then show ?case by (simp add: mem_run_def slice_last_short)
next
  case (Cons c cs)
  have step: "length (stored (mem_step convs c) p) \<le> 10"
    using Cons.prems by (cases c) (simp_all add: stored_get stored_add slice_last_length)
  have "stored (mem_run convs (c # cs)) p = stored (mem_run (mem_step convs c) cs) p"
    by (simp add: mem_run_def)
  also have "\<dots> = slice_last 10 (stored (mem_step convs c) p @ appended p cs)"
    by (rule Cons.IH [OF step])
  also have "\<dots> = slice_last 10 (stored convs p @ appended p (c # cs))"
    by (cases c) (simp_all add: stored_get stored_add slice_last_append)
  finally show ?case .
qed

lemma stored_empty: "stored Map.empty p = []"
  by (simp add: stored_def)

lemma mem_run_append: "mem_run convs (xs @ ys) = mem_run (mem_run convs xs) ys"
  by (simp add: mem_run_def)

lemma stored_reachable_le: "length (stored (mem_run Map.empty calls) p) \<le> 10"
  using stored_mem_run [of Map.empty p calls] by (simp add: stored_empty slice_last_length)


text \<open>
  Claim C8. Whatever calls were made since the module was loaded, a patient's list has
  at most 10 entries and is the last 10 entries appended for that patient, in append
  order. In particular, when a further call sequence appends 11 entries for the
  patient (calls for other patients may come in between), the list is then exactly
  the 2nd to the 11th of them in order: the 11th is its last element and the 1st is
  gone (it is not among the entries, when the 11 are pairwise different).
\<close>

theorem conversation_memory_cap_fifo:
  "length (stored (mem_run Map.empty calls) p) \<le> 10 \<and>
   stored (mem_run Map.empty calls) p = slice_last 10 (appended p calls) \<and>
   (length (appended p later) = 11 \<longrightarrow>
      stored (mem_run (mem_run Map.empty calls) later) p = tl (appended p later) \<and>
      last (stored (mem_run (mem_run Map.empty calls) later) p) = appended p later ! 10 \<and>
      (distinct (appended p later) \<longrightarrow>
         appended p later ! 0 \<notin> set (stored (mem_run (mem_run Map.empty calls) later) p)))"
proof (intro conjI impI)
  show "length (stored (mem_run Map.empty calls) p) \<le> 10"
    by (rule stored_reachable_le)
  show "stored (mem_run Map.empty calls) p = slice_last 10 (appended p calls)"
    using stored_mem_run [of Map.empty p calls] by (simp add: stored_empty)
next
  assume len: "length (appended p later) = 11"
  let ?h = "stored (mem_run Map.empty calls) p"
  let ?es = "appended p later"
  have "stored (mem_run (mem_run Map.empty calls) later) p = slice_last 10 (?h @ ?es)"
    by (rule stored_mem_run [OF stored_reachable_le])
  also have "\<dots> = drop (length ?h + 1) (?h @ ?es)"
    using len by (simp add: slice_last_def)
  also have "\<dots> = tl ?es"
    by (simp add: drop_Suc)
  finally show eq: "stored (mem_run (mem_run Map.empty calls) later) p = tl ?es" .
  obtain e es' where es: "?es = e # es'" and len': "length es' = 10"
    using len by (cases ?es) simp_all
  show "last (stored (mem_run (mem_run Map.empty calls) later) p) = ?es ! 10"
  proof -
    have "es' \<noteq> []" using len' by auto
    then have "last es' = es' ! (length es' - 1)" by (rule last_conv_nth)
    then show ?thesis using len' by (simp add: eq es)
  qed
  assume "distinct ?es"
  then show "?es ! 0 \<notin> set (stored (mem_run (mem_run Map.empty calls) later) p)"
    by (simp add: eq es)
qed

theorem conversation_memory_cap_fifo_witness:
  "length (appended ''p1'' eleven_appends) = 11 \<and>
   distinct (appended ''p1'' eleven_appends) \<and>
   map content (stored (mem_run (mem_run Map.empty [Add_to_history ''p1'' ''user'' ''m00'']) eleven_appends) ''p1'') =
     [''m02'', ''m03'', ''m04'', ''m05'', ''m06'', ''m07'', ''m08'', ''m09'', ''m10'', ''m11'']"
proof -
  have len: "length (appended ''p1'' eleven_appends) = 11"
    by (simp add: eleven_appends_def)
  have dist: "distinct (appended ''p1'' eleven_appends)"
    by (simp add: eleven_appends_def)
  from conversation_memory_cap_fifo [of "[Add_to_history ''p1'' ''user'' ''m00'']" "''p1''" eleven_appends] len
  have "stored (mem_run (mem_run Map.empty [Add_to_history ''p1'' ''user'' ''m00'']) eleven_appends) ''p1''
        = tl (appended ''p1'' eleven_appends)"
    by blast
  then show ?thesis
    using len dist by (simp add: eleven_appends_def)
qed

section \<open>Properties of strptime\<close>




lemma re_class_iff: "((m, r) \<in> set (re_class cls s)) = (\<exists>c. c \<in> set cls \<and> m = [c] \<and> s = c # r)"
  by (cases s) auto

lemma in_map_cons:
  "((m, r) \<in> (\<lambda>(m', r'). (c # m', r')) ` S) = (\<exists>m'. m = c # m' \<and> (m', r) \<in> S)"
  by force

lemma re_lit_iff:
  "((m, r) \<in> set (re_lit l s)) = (s = m @ r \<and> length m = length l \<and> map lower_char m = map lower_char l)"
proof (induction l s arbitrary: m rule: re_lit.induct)
  case (1 s)
  then show ?case by auto
next
  case (2 l ls)
  then show ?case by auto
next
  case (3 l ls c cs)
  show ?case
  proof (cases "lower_char c = lower_char l")
    case True
    then show ?thesis
      by (cases m) (auto simp: in_map_cons 3)
  next
    case False
    then show ?thesis
      by (cases m) auto
  qed
qed


lemma re_seq_iff:
  "((m, r) \<in> set (re_seq p q s)) = (\<exists>a b r1. (a, r1) \<in> set (p s) \<and> (b, r) \<in> set (q r1) \<and> m = a @ b)"
  by (auto simp: re_seq_def) force

lemma re_alts_iff: "((m, r) \<in> set (re_alts ps s)) = (\<exists>p \<in> set ps. (m, r) \<in> set (p s))"
  by (auto simp: re_alts_def)

















lemma extends_class: "extends (re_class cls)"
  by (simp add: extends_def re_class_iff)

lemma extends_lit: "extends (re_lit l)"
  by (simp add: extends_def re_lit_iff)


lemma extends_seq: "extends p \<Longrightarrow> extends q \<Longrightarrow> extends (re_seq p q)"
  unfolding extends_def re_seq_iff by blast

lemma extends_alts: "\<forall>p \<in> set ps. extends p \<Longrightarrow> extends (re_alts ps)"
  unfolding extends_def re_alts_iff by blast

lemma extends_digit: "extends re_digit"
  by (simp add: re_digit_def extends_class)




lemma extends_I: "extends re_I"
  by (simp add: re_I_def extends_alts extends_seq extends_lit extends_class)

lemma extends_M: "extends re_M"
  by (simp add: re_M_def extends_alts extends_seq extends_class extends_digit)

lemma extends_p: "extends re_p"
  by (simp add: re_p_def extends_alts extends_lit)























section \<open>Properties of the tools\<close>

subsection \<open>send\_emergency\_alert\<close>

text \<open>
  Claim C5. For every pair identifier and reason and every state of the store, also one
  whose insert raises or whose client cannot be obtained, send\_emergency\_alert
  returns a text and raises nothing; the text is one of its two fixed reassuring
  sentences (the first whenever the client was obtained, whatever the insert did), and
  it is not empty.
\<close>

theorem send_emergency_alert_always_reassures:
  "\<exists>w'. send_emergency_alert w p why =
          (Inr (if client_error w = None
                then ''I've notified your caregiver about this situation. Help is on the way. Please stay calm.''
                else ''I'm here with you. Let me help you feel safe.''), w') \<and>
        (if client_error w = None
         then ''I've notified your caregiver about this situation. Help is on the way. Please stay calm.''
         else ''I'm here with you. Let me help you feel safe.'') \<noteq> []"
  by (cases "client_error w")
     (simp_all add: send_emergency_alert_def send_emergency_alert_body_def get_supabase_client_def Let_def)

theorem send_emergency_alert_always_reassures_witness:
  "fst (send_emergency_alert failing_world ''pair-1'' ''I fell'') =
     Inr ''I've notified your caregiver about this situation. Help is on the way. Please stay calm.'' \<and>
   emergency_alerts (snd (send_emergency_alert failing_world ''pair-1'' ''I fell'')) = []"
proof -
  have c: "client_error failing_world = None"
    by (simp add: failing_world_def empty_world_def)
  have "emergency_alerts (snd (send_emergency_alert failing_world ''pair-1'' ''I fell'')) = []"
    by (simp add: send_emergency_alert_def send_emergency_alert_body_def get_supabase_client_def
        insert_alert_def next_outcome_def failing_world_def empty_world_def Let_def)
  then show ?thesis
    using send_emergency_alert_always_reassures [of failing_world "''pair-1''" "''I fell''"] c
    by auto
qed

subsection \<open>create\_reminder\<close>

lemma next_outcome_serves:
  "store_serves w \<Longrightarrow> next_outcome w = (Served, w\<lparr>requests := tl (requests w)\<rparr>)"
  by (cases "requests w") (simp_all add: store_serves_def next_outcome_def)


lemma create_reminder_parse_ok:
  assumes "strptime (d @ '' '' @ tm) = Inr dt" and "store_serves w"
  shows "create_reminder w p t d tm =
           (Inr (''Reminder created successfully! I'll remind you about '' @ apostrophe @ t @
                 apostrophe @ '' on '' @ d @ '' at '' @ tm @ ''.''),
            w\<lparr>requests := tl (requests w),
              reminders := reminders w @
                 [\<lparr>reminder_id = next_id w, pair_id = p, title = t, date = d, time = tm\<rparr>],
              next_id := Suc (next_id w)\<rparr>)"
proof -
  have c: "get_supabase_client w = Inr ()"
    using assms(2) by (simp add: store_serves_def get_supabase_client_def)
  show ?thesis
    using assms(1) c next_outcome_serves [OF assms(2)]
    by (simp add: create_reminder_def create_reminder_body_def insert_reminder_def Let_def)
qed





subsection \<open>delete\_reminder\<close>

lemma select_unordered_serves:
  "store_serves w \<Longrightarrow> select_reminders w p False = (Inr (pair_rows w p), after_request w)"
  by (simp add: select_reminders_def next_outcome_serves pair_rows_def after_request_def)

lemma client_serves: "store_serves w \<Longrightarrow> get_supabase_client w = Inr ()"
  by (simp add: store_serves_def get_supabase_client_def)

text \<open>The match folds the case of accented letters too, as \<^verbatim>\<open>str.lower\<close> does.\<close>

lemma title_matches_accented:
  "title_matches (''caf'' @ [CHR 0xE9]) cafe \<and> title_matches (''CAF'' @ [CHR 0xC9]) cafe \<and>
   \<not> title_matches (''cafe'') cafe"
  by code_simp

lemma delete_reminder_no_rows:
  assumes "store_serves w" and "pair_rows w p = []"
  shows "delete_reminder w p fragment = (Inr ''You don't have any reminders to delete.'', after_request w)"
  using assms
  by (simp add: delete_reminder_def delete_reminder_body_def client_serves select_unordered_serves)

lemma delete_reminder_no_match:
  assumes "store_serves w" and "pair_rows w p \<noteq> []" and "matching_rows w p fragment = []"
  shows "delete_reminder w p fragment =
           (Inr (''I couldn't find a reminder matching '' @ apostrophe @ fragment @ apostrophe @
                 ''. Please check the reminder title and try again.''), after_request w)"
  using assms
  by (simp add: delete_reminder_def delete_reminder_body_def client_serves select_unordered_serves
      matching_rows_def)

lemma delete_reminder_ambiguous:
  assumes "store_serves w" and "2 \<le> length (matching_rows w p fragment)"
  shows "delete_reminder w p fragment =
           (Inr (''Found multiple reminders matching '' @ apostrophe @ fragment @ apostrophe @ '': '' @
                 join '', '' (map title (matching_rows w p fragment)) @ ''. Please be more specific.''),
            after_request w)"
proof -
  obtain a b rest where m: "matching_rows w p fragment = a # b # rest"
  proof (cases "matching_rows w p fragment")
    case Nil
    then show ?thesis using assms(2) by simp
  next
    case (Cons a xs)
    then show ?thesis using assms(2) that by (cases xs) simp_all
  qed
  have rows: "pair_rows w p \<noteq> []"
    using m by (auto simp: matching_rows_def)
  show ?thesis
    using assms(1) rows m
    by (simp add: delete_reminder_def delete_reminder_body_def client_serves select_unordered_serves
        matching_rows_def [symmetric])
qed

lemma delete_reminder_unique:
  assumes "store_serves w" and "store_serves (after_request w)" and "matching_rows w p fragment = [r]"
  shows "delete_reminder w p fragment =
           (Inr (''I've deleted the reminder '' @ apostrophe @ title r @ apostrophe @
                 '' scheduled for '' @ date r @ '' at '' @ time r @ ''.''),
            (after_request (after_request w))
              \<lparr>reminders := filter (\<lambda>x. reminder_id x \<noteq> reminder_id r) (reminders w)\<rparr>)"
proof -
  have rows: "pair_rows w p \<noteq> []"
    using assms(3) by (auto simp: matching_rows_def)
  have del: "delete_by_id (after_request w) (reminder_id r) =
      (Inr (), (after_request (after_request w))
                 \<lparr>reminders := filter (\<lambda>x. reminder_id x \<noteq> reminder_id r) (reminders w)\<rparr>)"
    using next_outcome_serves [OF assms(2)]
    by (simp add: delete_by_id_def after_request_def)
  show ?thesis
    using assms(1) rows assms(3) del
    by (simp add: delete_reminder_def delete_reminder_body_def client_serves select_unordered_serves
        matching_rows_def [symmetric])
qed

text \<open>
  Claim C4, as the code has it. With a store that serves the requests, for every table
  of reminders and every title fragment, where the matching reminders are those of the
  pair whose lower-cased title contains the lower-cased fragment:
  when the pair has no reminder at all, the table is unchanged and the text is the
  fixed \<^verbatim>\<open>You don't have any reminders to delete.\<close>;
  when the pair has reminders and none matches, the table is unchanged and the text
  names the fragment;
  when two or more match, the table is unchanged and the text lists the titles of all
  the matching reminders;
  when exactly one matches, the rows with its id are deleted (so it is no longer in the
  table) and the text names its title, date and time.
\<close>

theorem delete_reminder_by_fragment:
  "store_serves w \<longrightarrow>
   (pair_rows w p = [] \<longrightarrow>
      delete_reminder w p fragment = (Inr ''You don't have any reminders to delete.'', after_request w) \<and>
      reminders (snd (delete_reminder w p fragment)) = reminders w) \<and>
   (pair_rows w p \<noteq> [] \<and> matching_rows w p fragment = [] \<longrightarrow>
      fst (delete_reminder w p fragment) =
        Inr (''I couldn't find a reminder matching '' @ apostrophe @ fragment @ apostrophe @
             ''. Please check the reminder title and try again.'') \<and>
      reminders (snd (delete_reminder w p fragment)) = reminders w) \<and>
   (2 \<le> length (matching_rows w p fragment) \<longrightarrow>
      fst (delete_reminder w p fragment) =
        Inr (''Found multiple reminders matching '' @ apostrophe @ fragment @ apostrophe @ '': '' @
             join '', '' (map title (matching_rows w p fragment)) @ ''. Please be more specific.'') \<and>
      reminders (snd (delete_reminder w p fragment)) = reminders w) \<and>
   (\<forall>r. matching_rows w p fragment = [r] \<and> store_serves (after_request w) \<longrightarrow>
      fst (delete_reminder w p fragment) =
        Inr (''I've deleted the reminder '' @ apostrophe @ title r @ apostrophe @
             '' scheduled for '' @ date r @ '' at '' @ time r @ ''.'') \<and>
      reminders (snd (delete_reminder w p fragment)) =
        filter (\<lambda>x. reminder_id x \<noteq> reminder_id r) (reminders w) \<and>
      r \<notin> set (reminders (snd (delete_reminder w p fragment))))"
proof (intro impI conjI allI)
  assume s: "store_serves w"
  { assume "pair_rows w p = []"
    then show "delete_reminder w p fragment = (Inr ''You don't have any reminders to delete.'', after_request w)"
      by (rule delete_reminder_no_rows [OF s])
    then show "reminders (snd (delete_reminder w p fragment)) = reminders w"
      by (simp add: after_request_def) }
  { assume a: "pair_rows w p \<noteq> [] \<and> matching_rows w p fragment = []"
    show "fst (delete_reminder w p fragment) =
        Inr (''I couldn't find a reminder matching '' @ apostrophe @ fragment @ apostrophe @
             ''. Please check the reminder title and try again.'')"
      using delete_reminder_no_match [OF s, of p fragment] a by simp
    show "reminders (snd (delete_reminder w p fragment)) = reminders w"
      using delete_reminder_no_match [OF s, of p fragment] a by (simp add: after_request_def) }
  { assume a: "2 \<le> length (matching_rows w p fragment)"
    show "fst (delete_reminder w p fragment) =
        Inr (''Found multiple reminders matching '' @ apostrophe @ fragment @ apostrophe @ '': '' @
             join '', '' (map title (matching_rows w p fragment)) @ ''. Please be more specific.'')"
      using delete_reminder_ambiguous [OF s a] by simp
    show "reminders (snd (delete_reminder w p fragment)) = reminders w"
      using delete_reminder_ambiguous [OF s a] by (simp add: after_request_def) }
  { fix r
    assume a: "matching_rows w p fragment = [r] \<and> store_serves (after_request w)"
    note u = delete_reminder_unique [OF s, of p fragment r]
    show "fst (delete_reminder w p fragment) =
        Inr (''I've deleted the reminder '' @ apostrophe @ title r @ apostrophe @
             '' scheduled for '' @ date r @ '' at '' @ time r @ ''.'')"
      using u a by simp
    show eq: "reminders (snd (delete_reminder w p fragment)) =
        filter (\<lambda>x. reminder_id x \<noteq> reminder_id r) (reminders w)"
      using u a by simp
    show "r \<notin> set (reminders (snd (delete_reminder w p fragment)))"
      unfolding eq by simp }
qed

theorem delete_reminder_by_fragment_witness:
  "store_serves three_reminders \<and> store_serves (after_request three_reminders) \<and>
   pair_rows three_reminders ''pair-9'' = [] \<and>
   fst (delete_reminder three_reminders ''pair-9'' ''pills'') =
     Inr ''You don't have any reminders to delete.'' \<and>
   reminders (snd (delete_reminder three_reminders ''pair-9'' ''pills'')) = [pills, walk, doctor, dentist] \<and>
   pair_rows three_reminders ''pair-1'' \<noteq> [] \<and>
   matching_rows three_reminders ''pair-1'' ''walk'' = [] \<and>
   fst (delete_reminder three_reminders ''pair-1'' ''walk'') =
     Inr ''I couldn't find a reminder matching 'walk'. Please check the reminder title and try again.'' \<and>
   reminders (snd (delete_reminder three_reminders ''pair-1'' ''walk'')) = [pills, walk, doctor, dentist] \<and>
   matching_rows three_reminders ''pair-1'' ''APPOINTMENT'' = [doctor, dentist] \<and>
   fst (delete_reminder three_reminders ''pair-1'' ''APPOINTMENT'') =
     Inr ''Found multiple reminders matching 'APPOINTMENT': Doctor appointment, Dentist appointment. Please be more specific.'' \<and>
   reminders (snd (delete_reminder three_reminders ''pair-1'' ''APPOINTMENT'')) = [pills, walk, doctor, dentist] \<and>
   matching_rows three_reminders ''pair-1'' ''pills'' = [pills] \<and>
   fst (delete_reminder three_reminders ''pair-1'' ''pills'') =
     Inr ''I've deleted the reminder 'Take Pills' scheduled for 25 Jan 2025 at 09:00 AM.'' \<and>
   reminders (snd (delete_reminder three_reminders ''pair-1'' ''pills'')) = [walk, doctor, dentist]"
proof -
  have s1: "store_serves three_reminders"
    by (simp add: store_serves_def three_reminders_def empty_world_def)
  have s2: "store_serves (after_request three_reminders)"
    by (simp add: store_serves_def after_request_def three_reminders_def empty_world_def)
  have rs: "reminders three_reminders = [pills, walk, doctor, dentist]"
    by (simp add: three_reminders_def)
  have r9: "pair_rows three_reminders ''pair-9'' = []"
    by (simp add: pair_rows_def rs pills_def walk_def doctor_def dentist_def)
  have r1: "pair_rows three_reminders ''pair-1'' = [pills, doctor, dentist]"
    by (simp add: pair_rows_def rs pills_def walk_def doctor_def dentist_def)
  have m0: "matching_rows three_reminders ''pair-1'' ''walk'' = []"
    unfolding matching_rows_def r1 by code_simp
  have m2: "matching_rows three_reminders ''pair-1'' ''APPOINTMENT'' = [doctor, dentist]"
    unfolding matching_rows_def r1 by code_simp
  have m1: "matching_rows three_reminders ''pair-1'' ''pills'' = [pills]"
    unfolding matching_rows_def r1 by code_simp
  have r1': "pair_rows three_reminders ''pair-1'' \<noteq> []"
    by (simp add: r1)
  have m2': "2 \<le> length (matching_rows three_reminders ''pair-1'' ''APPOINTMENT'')"
    by (simp add: m2)
  note t9 = delete_reminder_by_fragment [of three_reminders "''pair-9''" "''pills''", THEN mp, OF s1,
      THEN conjunct1, THEN mp, OF r9]
  note t0 = delete_reminder_by_fragment [of three_reminders "''pair-1''" "''walk''", THEN mp, OF s1,
      THEN conjunct2, THEN conjunct1, THEN mp, OF conjI [OF r1' m0]]
  note t2 = delete_reminder_by_fragment [of three_reminders "''pair-1''" "''APPOINTMENT''", THEN mp, OF s1,
      THEN conjunct2, THEN conjunct2, THEN conjunct1, THEN mp, OF m2']
  note t1 = delete_reminder_by_fragment [of three_reminders "''pair-1''" "''pills''", THEN mp, OF s1,
      THEN conjunct2, THEN conjunct2, THEN conjunct2, THEN spec, of pills, THEN mp, OF conjI [OF m1 s2]]
  have a1: "fst (delete_reminder three_reminders ''pair-9'' ''pills'') =
     Inr ''You don't have any reminders to delete.''"
    using t9 [THEN conjunct1] by simp
  have a2: "reminders (snd (delete_reminder three_reminders ''pair-9'' ''pills'')) = [pills, walk, doctor, dentist]"
    using t9 [THEN conjunct2] by (simp only: rs)
  have b1: "fst (delete_reminder three_reminders ''pair-1'' ''walk'') =
        Inr ''I couldn't find a reminder matching 'walk'. Please check the reminder title and try again.''"
    using t0 [THEN conjunct1] by (simp add: apostrophe_def)
  have b2: "reminders (snd (delete_reminder three_reminders ''pair-1'' ''walk'')) = [pills, walk, doctor, dentist]"
    using t0 [THEN conjunct2] by (simp only: rs)
  have c1: "fst (delete_reminder three_reminders ''pair-1'' ''APPOINTMENT'') =
        Inr ''Found multiple reminders matching 'APPOINTMENT': Doctor appointment, Dentist appointment. Please be more specific.''"
    using t2 [THEN conjunct1] by (simp add: m2 apostrophe_def doctor_def dentist_def)
  have c2: "reminders (snd (delete_reminder three_reminders ''pair-1'' ''APPOINTMENT'')) = [pills, walk, doctor, dentist]"
    using t2 [THEN conjunct2] by (simp only: rs)
  have d1: "fst (delete_reminder three_reminders ''pair-1'' ''pills'') =
        Inr ''I've deleted the reminder 'Take Pills' scheduled for 25 Jan 2025 at 09:00 AM.''"
    using t1 [THEN conjunct1] by (simp add: apostrophe_def pills_def)
  have "reminders (snd (delete_reminder three_reminders ''pair-1'' ''pills'')) =
          filter (\<lambda>x. reminder_id x \<noteq> reminder_id pills) (reminders three_reminders)"
    by (rule t1 [THEN conjunct2, THEN conjunct1])
  also have "\<dots> = [walk, doctor, dentist]"
    unfolding rs by (simp add: pills_def walk_def doctor_def dentist_def)
  finally have d2: "reminders (snd (delete_reminder three_reminders ''pair-1'' ''pills'')) = [walk, doctor, dentist]" .
  show ?thesis
    by (intro conjI s1 s2 r9 a1 a2 r1' m0 b1 b2 m2 c1 c2 m1 d1 d2)
qed

text \<open>
  The claim as stated fails where the pair has no reminder at all: no reminder matches
  the fragment, and the text returned does not name it.
\<close>

theorem delete_reminder_empty_pair_counterexample:
  "matching_rows empty_world ''pair-1'' ''pills'' = [] \<and>
   delete_reminder empty_world ''pair-1'' ''pills'' =
     (Inr ''You don't have any reminders to delete.'', empty_world) \<and>
   \<not> str_in ''pills'' ''You don't have any reminders to delete.''"
proof (intro conjI)
  show "matching_rows empty_world ''pair-1'' ''pills'' = []"
    by (simp add: matching_rows_def pair_rows_def empty_world_def)
  show "delete_reminder empty_world ''pair-1'' ''pills'' =
     (Inr ''You don't have any reminders to delete.'', empty_world)"
    by (simp add: delete_reminder_def delete_reminder_body_def get_supabase_client_def
        select_reminders_def next_outcome_def empty_world_def)
  show "\<not> str_in ''pills'' ''You don't have any reminders to delete.''"
    by code_simp
qed

subsection \<open>list\_reminders\<close>

lemma dt_ge_not_lt: "dt_ge a b = (\<not> dt_lt a b)"
  by (auto simp: dt_ge_def dt_lt_def)

lemma upcoming_loop_filter:
  "upcoming_loop now rs acc = acc @ filter (is_upcoming now) rs"
  by (induction rs arbitrary: acc) (simp_all add: is_upcoming_def dt_ge_not_lt split: sum.splits)

lemma format_loop_map2:
  "format_loop idx rs acc = acc @ map2 reminder_line [idx..<idx + length rs] rs"
proof (induction rs arbitrary: idx acc)
  case Nil
  then show ?case by simp
next
  case (Cons r rs)
  have "[idx..<idx + length (r # rs)] = idx # [Suc idx..<Suc idx + length rs]"
    using upt_conv_Cons [of idx "idx + length (r # rs)"] by simp
  then show ?case
    by (simp add: Cons.IH del: upt_Suc)
qed

lemma select_ordered_serves:
  "store_serves w \<Longrightarrow> select_reminders w p True = (Inr (ordered_rows w p), after_request w)"
  by (simp add: select_reminders_def next_outcome_serves pair_rows_def ordered_rows_def after_request_def)

lemma list_reminders_serves:
  assumes "store_serves w"
  shows "list_reminders w p =
           (Inr (if ordered_rows w p = [] then no_reminders_set
                 else if filter (is_upcoming (clock w)) (ordered_rows w p) = [] then all_reminders_passed
                 else ''You have '' @ str_nat (length (filter (is_upcoming (clock w)) (ordered_rows w p))) @
                      '' upcoming reminder(s):'' @ newline @
                      join newline
                        (map2 reminder_line
                           [1..<Suc (length (filter (is_upcoming (clock w)) (ordered_rows w p)))]
                           (filter (is_upcoming (clock w)) (ordered_rows w p)))),
            after_request w)"
proof -
  have clk: "clock (after_request w) = clock w"
    by (simp add: after_request_def)
  show ?thesis
    using assms
    by (simp add: list_reminders_def list_reminders_body_def client_serves select_ordered_serves
        upcoming_loop_filter format_loop_map2 clk Let_def)
qed

lemma count_list_filter:
  "count_list (filter P xs) x = (if P x then count_list xs x else 0)"
  by (induction xs) simp_all

lemma count_list_insert_row:
  "count_list (insert_row before a xs) x = count_list (a # xs) x"
  by (induction xs) auto

lemma count_list_order_rows: "count_list (order_rows le xs) x = count_list xs x"
  by (induction xs) (simp_all add: order_rows_def count_list_insert_row)

lemma length_insert_row: "length (insert_row before a xs) = Suc (length xs)"
  by (induction xs) simp_all

lemma length_order_rows: "length (order_rows le xs) = length xs"
  by (induction xs) (simp_all add: order_rows_def length_insert_row)

text \<open>
  Claim C7. With a store that serves the select, for every table of reminders and every
  clock value \<open>now\<close>: the reminders listed are those of the pair whose date and time
  parse and are not strictly before \<open>now\<close>, each as often as the table has it (once
  for a row stored once, never for a row that is excluded or does not parse), with no
  mention of the skipped ones. When the pair has no row the text is the fixed
  \<^verbatim>\<open>You don't have any reminders set right now.\<close>, when no row remains it is the
  fixed \<^verbatim>\<open>All your reminders have passed. ...\<close>, and otherwise it is a heading
  followed by one line per remaining reminder, numbered from 1, of the form
  \<^verbatim>\<open>{n}. {title} - {date} at {time}\<close>.
\<close>

theorem list_reminders_upcoming:
  "store_serves w \<longrightarrow>
     (let listed = filter (is_upcoming (clock w)) (ordered_rows w p)
      in list_reminders w p =
           (Inr (if pair_rows w p = [] then ''You don't have any reminders set right now.''
                 else if listed = []
                   then ''All your reminders have passed. You don't have any upcoming reminders.''
                 else ''You have '' @ str_nat (length listed) @ '' upcoming reminder(s):'' @ newline @
                      join newline
                        (map2 (\<lambda>n r. str_nat n @ ''. '' @ title r @ '' - '' @ date r @ '' at '' @ time r)
                           [1..<Suc (length listed)] listed)),
            after_request w) \<and>
         (\<forall>r. count_list listed r = (if is_upcoming (clock w) r then count_list (pair_rows w p) r else 0)))"
proof
  assume s: "store_serves w"
  have empty: "(ordered_rows w p = []) = (pair_rows w p = [])"
    using length_order_rows [of "collation w" "pair_rows w p"]
    by (simp add: ordered_rows_def del: length_0_conv flip: length_0_conv)
  have line: "reminder_line = (\<lambda>n r. str_nat n @ ''. '' @ title r @ '' - '' @ date r @ '' at '' @ time r)"
    by (rule ext, rule ext) (simp add: reminder_line_def)
  have cnt: "\<And>r. count_list (filter (is_upcoming (clock w)) (ordered_rows w p)) r =
                (if is_upcoming (clock w) r then count_list (pair_rows w p) r else 0)"
    by (simp add: count_list_filter ordered_rows_def count_list_order_rows)
  show "let listed = filter (is_upcoming (clock w)) (ordered_rows w p)
      in list_reminders w p =
           (Inr (if pair_rows w p = [] then ''You don't have any reminders set right now.''
                 else if listed = []
                   then ''All your reminders have passed. You don't have any upcoming reminders.''
                 else ''You have '' @ str_nat (length listed) @ '' upcoming reminder(s):'' @ newline @
                      join newline
                        (map2 (\<lambda>n r. str_nat n @ ''. '' @ title r @ '' - '' @ date r @ '' at '' @ time r)
                           [1..<Suc (length listed)] listed)),
            after_request w) \<and>
         (\<forall>r. count_list listed r = (if is_upcoming (clock w) r then count_list (pair_rows w p) r else 0))"
    unfolding Let_def
    using list_reminders_serves [OF s, of p, unfolded line no_reminders_set_def all_reminders_passed_def empty]
      cnt
    by (intro conjI allI)
qed

text \<open>The example reminders: how their dates parse, and which are upcoming at noon of 1 January 2025.\<close>

lemma parse_pills:
  "strptime (date pills @ '' '' @ time pills) =
     Inr \<lparr>year = 2025, month = 1, day = 25, hour = 9, minute = 0, second = 0, microsecond = 0\<rparr>"
  by code_simp

lemma parse_doctor:
  "strptime (date doctor @ '' '' @ time doctor) =
     Inr \<lparr>year = 2025, month = 2, day = 1, hour = 14, minute = 30, second = 0, microsecond = 0\<rparr>"
  by code_simp

lemma parse_dentist:
  "strptime (date dentist @ '' '' @ time dentist) =
     Inr \<lparr>year = 2025, month = 3, day = 15, hour = 10, minute = 0, second = 0, microsecond = 0\<rparr>"
  by code_simp

lemma parse_passed:
  "strptime (date passed @ '' '' @ time passed) =
     Inr \<lparr>year = 2024, month = 12, day = 31, hour = 23, minute = 0, second = 0, microsecond = 0\<rparr>"
  by code_simp

lemma parse_malformed: "isl (strptime (date malformed @ '' '' @ time malformed))"
  by code_simp

lemma upcoming_examples:
  "is_upcoming noon pills" "is_upcoming noon doctor" "is_upcoming noon dentist"
  "\<not> is_upcoming noon passed" "\<not> is_upcoming noon malformed"
  using parse_malformed
  unfolding is_upcoming_def parse_pills parse_doctor parse_dentist parse_passed
  by (simp_all add: dt_lt_def dt_key_def noon_def sum.case_eq_if)

lemma ordered_mixed: "ordered_rows mixed_reminders ''pair-1'' = [doctor, pills, passed, malformed]"
  by code_simp

lemma ordered_three: "ordered_rows three_reminders ''pair-1'' = [doctor, dentist, pills]"
  by code_simp

lemma str_nat_small:
  "str_nat (Suc 0) = ''1''" "str_nat (Suc (Suc 0)) = ''2''" "str_nat (Suc (Suc (Suc 0))) = ''3''"
  by code_simp+

theorem list_reminders_upcoming_witness:
  "store_serves mixed_reminders \<and>
   fst (list_reminders mixed_reminders ''pair-1'') =
     Inr (''You have 2 upcoming reminder(s):'' @ newline @
          ''1. Doctor appointment - 01 Feb 2025 at 02:30 PM'' @ newline @
          ''2. Take Pills - 25 Jan 2025 at 09:00 AM'') \<and>
   is_upcoming (clock mixed_reminders) pills \<and>
   \<not> is_upcoming (clock mixed_reminders) passed \<and>
   \<not> is_upcoming (clock mixed_reminders) malformed \<and>
   count_list (filter (is_upcoming (clock mixed_reminders)) (ordered_rows mixed_reminders ''pair-1'')) pills = 1 \<and>
   count_list (filter (is_upcoming (clock mixed_reminders)) (ordered_rows mixed_reminders ''pair-1'')) passed = 0 \<and>
   count_list (filter (is_upcoming (clock mixed_reminders)) (ordered_rows mixed_reminders ''pair-1'')) malformed = 0"
proof -
  have s: "store_serves mixed_reminders"
    by (simp add: store_serves_def mixed_reminders_def empty_world_def)
  have clk: "clock mixed_reminders = noon"
    by (simp add: mixed_reminders_def empty_world_def)
  have pr: "pair_rows mixed_reminders ''pair-1'' = [pills, passed, malformed, doctor]"
    by (simp add: pair_rows_def mixed_reminders_def pills_def passed_def walk_def malformed_def doctor_def)
  have l: "filter (is_upcoming (clock mixed_reminders)) (ordered_rows mixed_reminders ''pair-1'') = [doctor, pills]"
    by (simp add: clk ordered_mixed upcoming_examples)
  note t = list_reminders_upcoming [of mixed_reminders "''pair-1''", THEN mp, OF s, unfolded Let_def]
  have out: "fst (list_reminders mixed_reminders ''pair-1'') =
     Inr (''You have 2 upcoming reminder(s):'' @ newline @
          ''1. Doctor appointment - 01 Feb 2025 at 02:30 PM'' @ newline @
          ''2. Take Pills - 25 Jan 2025 at 09:00 AM'')"
    using t [THEN conjunct1] unfolding l pr
    by (simp add: str_nat_small doctor_def pills_def)
  have c1: "count_list (filter (is_upcoming (clock mixed_reminders)) (ordered_rows mixed_reminders ''pair-1'')) pills = 1"
    using t [THEN conjunct2, THEN spec, of pills] upcoming_examples(1) unfolding pr clk
    by (simp add: pills_def passed_def malformed_def doctor_def)
  have c2: "count_list (filter (is_upcoming (clock mixed_reminders)) (ordered_rows mixed_reminders ''pair-1'')) passed = 0"
    using t [THEN conjunct2, THEN spec, of passed] upcoming_examples(4) unfolding clk by simp
  have c3: "count_list (filter (is_upcoming (clock mixed_reminders)) (ordered_rows mixed_reminders ''pair-1'')) malformed = 0"
    using t [THEN conjunct2, THEN spec, of malformed] upcoming_examples(5) unfolding clk by simp
  show ?thesis
    unfolding clk [symmetric, THEN sym]
    using s out c1 c2 c3 upcoming_examples(1,4,5) by (simp add: clk)
qed

lemma list_reminders_keeps_store_order:
  assumes "store_serves w" and "filter (is_upcoming (clock w)) (ordered_rows w p) \<noteq> []"
  shows "fst (list_reminders w p) =
           Inr (''You have '' @ str_nat (length (filter (is_upcoming (clock w)) (ordered_rows w p))) @
                '' upcoming reminder(s):'' @ newline @
                join newline
                  (map2 reminder_line
                     [1..<Suc (length (filter (is_upcoming (clock w)) (ordered_rows w p)))]
                     (filter (is_upcoming (clock w)) (ordered_rows w p))))"
proof -
  have "ordered_rows w p \<noteq> []"
    using assms(2) by auto
  then show ?thesis
    using list_reminders_serves [OF assms(1), of p] assms(2) by simp
qed

text \<open>
  No way of comparing texts helps: whenever the store puts one of two different texts
  strictly before the other, as every linear order does, there are two reminders of
  one day, written \<^verbatim>\<open>05 Jan 2025\<close> and \<^verbatim>\<open>5 Jan 2025\<close>, that come out evening first.
\<close>

lemma parse_same_day:
  "strptime (date evening_a @ '' '' @ time evening_a) =
     Inr \<lparr>year = 2025, month = 1, day = 5, hour = 20, minute = 0, second = 0, microsecond = 0\<rparr>"
  "strptime (date evening_b @ '' '' @ time evening_b) =
     Inr \<lparr>year = 2025, month = 1, day = 5, hour = 20, minute = 0, second = 0, microsecond = 0\<rparr>"
  "strptime (date morning_a @ '' '' @ time morning_a) =
     Inr \<lparr>year = 2025, month = 1, day = 5, hour = 9, minute = 0, second = 0, microsecond = 0\<rparr>"
  "strptime (date morning_b @ '' '' @ time morning_b) =
     Inr \<lparr>year = 2025, month = 1, day = 5, hour = 9, minute = 0, second = 0, microsecond = 0\<rparr>"
  by code_simp+

lemma evening_first_not_chronological:
  "\<not> chronological [evening_a, morning_b]" "\<not> chronological [evening_b, morning_a]"
proof -
  have "\<not> not_after evening_a morning_b" "\<not> not_after evening_b morning_a"
    unfolding not_after_def parse_same_day by (simp_all add: dt_lt_def dt_key_def)
  then show "\<not> chronological [evening_a, morning_b]" "\<not> chronological [evening_b, morning_a]"
    by (simp_all add: chronological_def)
qed

lemma no_text_order_is_date_order:
  assumes "\<forall>a b. le a b \<or> le b a" and "\<forall>a b. le a b \<longrightarrow> le b a \<longrightarrow> a = b"
  shows "\<not> chronological (order_rows le [evening_a, morning_b]) \<or>
         \<not> chronological (order_rows le [evening_b, morning_a])"
proof (cases "le ''05 Jan 2025'' ''5 Jan 2025''")
  case True
  then have "\<not> le ''5 Jan 2025'' ''05 Jan 2025''"
    using assms(2) by fastforce
  then have "order_rows le [evening_a, morning_b] = [evening_a, morning_b]"
    using True by (simp add: order_rows_def row_before_def evening_a_def morning_b_def)
  then show ?thesis
    using evening_first_not_chronological(1) by simp
next
  case False
  then have "le ''5 Jan 2025'' ''05 Jan 2025''"
    using assms(1) by blast
  then have "order_rows le [evening_b, morning_a] = [evening_b, morning_a]"
    using False by (simp add: order_rows_def row_before_def evening_b_def morning_a_def)
  then show ?thesis
    using evening_first_not_chronological(2) by simp
qed

text \<open>
  Claim C6 says that, for every stored set of reminders of a pair, list\_reminders
  enumerates them in ascending chronological order of their parsed date and time. The
  code asks the store to order the rows by the \<^verbatim>\<open>date\<close> field and then by the
  \<^verbatim>\<open>time\<close> field and keeps the order it gets (\<open>list_reminders_keeps_store_order\<close>);
  it never compares the parsed values. The fields hold the texts the reminders were
  created with, like \<^verbatim>\<open>25 Jan 2025\<close>. At a store that compares texts character by
  character, with reminders for 25 January, 1 February and 15 March 2025, all upcoming,
  the reminder of 25 January is on the third line, after the reminder of 15 March on
  the second: the list is not in chronological order.
\<close>

theorem list_reminders_not_chronological:
  "fst (list_reminders three_reminders ''pair-1'') =
     Inr (''You have 3 upcoming reminder(s):'' @ newline @
          ''1. Doctor appointment - 01 Feb 2025 at 02:30 PM'' @ newline @
          ''2. Dentist appointment - 15 Mar 2025 at 10:00 AM'' @ newline @
          ''3. Take Pills - 25 Jan 2025 at 09:00 AM'') \<and>
   strptime ''15 Mar 2025 10:00 AM'' =
     Inr \<lparr>year = 2025, month = 3, day = 15, hour = 10, minute = 0, second = 0, microsecond = 0\<rparr> \<and>
   strptime ''25 Jan 2025 09:00 AM'' =
     Inr \<lparr>year = 2025, month = 1, day = 25, hour = 9, minute = 0, second = 0, microsecond = 0\<rparr> \<and>
   dt_lt \<lparr>year = 2025, month = 1, day = 25, hour = 9, minute = 0, second = 0, microsecond = 0\<rparr>
         \<lparr>year = 2025, month = 3, day = 15, hour = 10, minute = 0, second = 0, microsecond = 0\<rparr> \<and>
   \<not> chronological (filter (is_upcoming (clock three_reminders)) (ordered_rows three_reminders ''pair-1''))"
proof -
  have s: "store_serves three_reminders"
    by (simp add: store_serves_def three_reminders_def empty_world_def)
  have clk: "clock three_reminders = noon"
    by (simp add: three_reminders_def empty_world_def)
  have l: "filter (is_upcoming (clock three_reminders)) (ordered_rows three_reminders ''pair-1'') = [doctor, dentist, pills]"
    by (simp add: clk ordered_three upcoming_examples)
  have pr: "pair_rows three_reminders ''pair-1'' \<noteq> []"
    by (simp add: pair_rows_def three_reminders_def pills_def)
  have a: "fst (list_reminders three_reminders ''pair-1'') =
     Inr (''You have 3 upcoming reminder(s):'' @ newline @
          ''1. Doctor appointment - 01 Feb 2025 at 02:30 PM'' @ newline @
          ''2. Dentist appointment - 15 Mar 2025 at 10:00 AM'' @ newline @
          ''3. Take Pills - 25 Jan 2025 at 09:00 AM'')"
    using list_reminders_serves [OF s, of "''pair-1''", unfolded l] pr
    by (simp add: ordered_three str_nat_small reminder_line_def doctor_def dentist_def pills_def)
  have b: "strptime ''15 Mar 2025 10:00 AM'' =
     Inr \<lparr>year = 2025, month = 3, day = 15, hour = 10, minute = 0, second = 0, microsecond = 0\<rparr>"
    using parse_dentist by (simp add: dentist_def)
  have c: "strptime ''25 Jan 2025 09:00 AM'' =
     Inr \<lparr>year = 2025, month = 1, day = 25, hour = 9, minute = 0, second = 0, microsecond = 0\<rparr>"
    using parse_pills by (simp add: pills_def)
  have d: "dt_lt \<lparr>year = 2025, month = 1, day = 25, hour = 9, minute = 0, second = 0, microsecond = 0\<rparr>
         \<lparr>year = 2025, month = 3, day = 15, hour = 10, minute = 0, second = 0, microsecond = 0\<rparr>"
    by (simp add: dt_lt_def dt_key_def)
  have "\<not> not_after dentist pills"
    using d unfolding not_after_def parse_dentist parse_pills by simp
  then have e: "\<not> chronological (filter (is_upcoming (clock three_reminders)) (ordered_rows three_reminders ''pair-1''))"
    unfolding l by (simp add: chronological_def)
  show ?thesis
    by (intro conjI a b c d e)
qed

section \<open>Properties of the agent\<close>

lemma first_ai_text_nonempty: "first_ai_text ms \<noteq> []"
  by (induction ms rule: first_ai_text.induct) (simp_all add: here_to_help_def)

lemma first_ai_text_fallback:
  "(\<forall>text calls. AIMessage text calls \<in> set ms \<longrightarrow> text = []) \<Longrightarrow> first_ai_text ms = here_to_help"
  by (induction ms rule: first_ai_text.induct) auto

lemma run_steps_pos:
  "0 < n \<Longrightarrow>
   run_steps n ch env nd turn state w =
     (case graph_step ch env nd turn state w of
        Finished final w1 \<Rightarrow> (Inr final, w1)
      | Raising e w1 \<Rightarrow> (Inl e, w1)
      | Next_node nd1 turn1 state1 w1 \<Rightarrow> run_steps (n - 1) ch env nd1 turn1 state1 w1)"
  by (cases n) (auto split: progress.splits)

text \<open>
  Claim C10. \<^verbatim>\<open>run_agent\<close> is \<open>run_agent_on\<close> with the channel of the source (the
  last conjunct); the property holds for either channel. For every patient, pair, message and history, every
  provider, every store and every step limit, the call returns a text that is not empty
  and raises nothing. When anything up to the end of \<^verbatim>\<open>agent.invoke\<close> raises, the
  text is the fixed sentence of the handler; when the final state has no assistant
  message with a text that is not empty, it is the fixed fallback sentence.
\<close>

theorem run_agent_never_raises:
  "(\<exists>s w1. run_agent_on ch env w patient pair message history = (Inr s, w1) \<and> s \<noteq> []) \<and>
   (\<forall>e w1. run_graph ch env w patient pair message history = (Inl e, w1) \<longrightarrow>
      run_agent_on ch env w patient pair message history = (Inr some_trouble, w1)) \<and>
   (\<forall>final w1. run_graph ch env w patient pair message history = (Inr final, w1) \<and>
        (\<forall>text calls. AIMessage text calls \<in> set (messages final) \<longrightarrow> text = []) \<longrightarrow>
      run_agent_on ch env w patient pair message history = (Inr here_to_help, w1)) \<and>
   run_agent env w patient pair message history =
     run_agent_on messages_channel env w patient pair message history"
proof (intro conjI allI impI)
  show "\<exists>s w1. run_agent_on ch env w patient pair message history = (Inr s, w1) \<and> s \<noteq> []"
  proof (cases "run_graph ch env w patient pair message history")
    case (Pair r w1)
    then show ?thesis
      by (cases r) (simp_all add: run_agent_on_def some_trouble_def final_response_def first_ai_text_nonempty)
  qed
next
  fix e w1
  assume "run_graph ch env w patient pair message history = (Inl e, w1)"
  then show "run_agent_on ch env w patient pair message history = (Inr some_trouble, w1)"
    by (simp add: run_agent_on_def)
next
  fix final w1
  assume a: "run_graph ch env w patient pair message history = (Inr final, w1) \<and>
        (\<forall>text calls. AIMessage text calls \<in> set (messages final) \<longrightarrow> text = [])"
  then have "first_ai_text (rev (messages final)) = here_to_help"
    by (intro first_ai_text_fallback) simp
  then show "run_agent_on ch env w patient pair message history = (Inr here_to_help, w1)"
    using a by (simp add: run_agent_on_def final_response_def)
next
  show "run_agent env w patient pair message history =
     run_agent_on messages_channel env w patient pair message history"
    by (simp add: run_agent_def)
qed

theorem run_agent_never_raises_witness:
  "run_graph messages_channel keyless_env empty_world ''patient-1'' ''pair-1'' ''hello'' [] =
     (Inl (ValueError ''GEMINI_API_KEY not found in environment''), empty_world) \<and>
   run_agent keyless_env empty_world ''patient-1'' ''pair-1'' ''hello'' [] =
     (Inr ''I'm having some trouble right now, but I'm here with you. How can I help?'', empty_world) \<and>
   run_graph messages_channel silent_env empty_world ''patient-1'' ''pair-1'' ''hello'' [] =
     (Inr \<lparr>messages = [AIMessage [] []], state_pair_id = ''pair-1'', patient_id = ''patient-1''\<rparr>, empty_world) \<and>
   run_agent silent_env empty_world ''patient-1'' ''pair-1'' ''hello'' [] =
     (Inr ''I'm here to help. What would you like to know?'', empty_world)"
proof -
  have g1: "run_graph messages_channel keyless_env empty_world ''patient-1'' ''pair-1'' ''hello'' [] =
     (Inl (ValueError ''GEMINI_API_KEY not found in environment''), empty_world)"
    by (simp add: run_graph_def create_agent_graph_def create_agent_llm_def keyless_env_def)
  have g2: "run_graph messages_channel silent_env empty_world ''patient-1'' ''pair-1'' ''hello'' [] =
     (Inr \<lparr>messages = [AIMessage [] []], state_pair_id = ''pair-1'', patient_id = ''patient-1''\<rparr>, empty_world)"
    by (simp add: run_graph_def create_agent_graph_def create_agent_llm_def silent_env_def invoke_def
        run_steps_pos call_agent_def merge_messages_def messages_channel_def should_continue_def
        initial_state_def)
  note t1 = run_agent_never_raises [of messages_channel keyless_env empty_world "''patient-1''" "''pair-1''" "''hello''" "[]",
      THEN conjunct2, THEN conjunct1, THEN spec, THEN spec, THEN mp, OF g1]
  have empty_text: "\<forall>text calls. AIMessage text calls \<in>
        set (messages \<lparr>messages = [AIMessage [] []], state_pair_id = ''pair-1'', patient_id = ''patient-1''\<rparr>) \<longrightarrow> text = []"
    by simp
  note t2 = run_agent_never_raises [of messages_channel silent_env empty_world "''patient-1''" "''pair-1''" "''hello''" "[]",
      THEN conjunct2, THEN conjunct2, THEN conjunct1, THEN spec, THEN spec, THEN mp,
      OF conjI [OF g2 empty_text]]
  have a: "run_agent keyless_env empty_world ''patient-1'' ''pair-1'' ''hello'' [] =
     (Inr ''I'm having some trouble right now, but I'm here with you. How can I help?'', empty_world)"
    using t1
      run_agent_never_raises [of messages_channel keyless_env empty_world "''patient-1''" "''pair-1''" "''hello''" "[]",
        THEN conjunct2, THEN conjunct2, THEN conjunct2]
    by (simp add: some_trouble_def)
  have b: "run_agent silent_env empty_world ''patient-1'' ''pair-1'' ''hello'' [] =
     (Inr ''I'm here to help. What would you like to know?'', empty_world)"
    using t2
      run_agent_never_raises [of messages_channel silent_env empty_world "''patient-1''" "''pair-1''" "''hello''" "[]",
        THEN conjunct2, THEN conjunct2, THEN conjunct2]
    by (simp add: here_to_help_def)
  show ?thesis
    by (intro conjI g1 a g2 b)
qed

lemma passes_run_steps:
  "passes ch env c c' \<Longrightarrow>
   (case c of (n, nd, turn, state, w) \<Rightarrow> run_steps n ch env nd turn state w) =
   (case c' of (n, nd, turn, state, w) \<Rightarrow> run_steps n ch env nd turn state w)"
  by (induction rule: passes.induct) simp_all

lemma should_continue_trouble:
  "should_continue (merge_messages ch state [AIMessage text []]) = Inr END"
  by (cases ch; cases "messages state") (simp_all add: should_continue_def merge_messages_def)

lemma final_response_trouble:
  "text \<noteq> [] \<Longrightarrow> final_response (messages (merge_messages ch state [AIMessage text []])) = text"
  by (cases ch) (simp_all add: final_response_def merge_messages_def)

text \<open>
  Claim C2. Take a run of \<^verbatim>\<open>run_agent\<close> (for either channel) that has a key and gets
  to an agent turn in which the provider call raises. Then \<^verbatim>\<open>call_agent\<close> returns
  the one fixed assistant message, which has no tool-invocation request; the graph is
  finished after that step; and \<^verbatim>\<open>run_agent\<close> returns the text of the fixed message,
  not an exception.
\<close>

theorem provider_error_gives_fixed_reply:
  "create_agent_llm env = Inr () \<and>
   passes ch env (recursion_limit env, Agent_node, 0, initial_state patient pair message history, w0)
                 (Suc n, Agent_node, turn, state, w) \<and>
   invoke_llm env turn (SystemMessage AGENT_SYSTEM_PROMPT # messages state) = Inl e \<longrightarrow>
     call_agent env turn state = [AIMessage ''I'm having trouble right now. Let me try to help you anyway.'' []] \<and>
     graph_step ch env Agent_node turn state w =
       Finished (merge_messages ch state (call_agent env turn state)) w \<and>
     run_agent_on ch env w0 patient pair message history =
       (Inr ''I'm having trouble right now. Let me try to help you anyway.'', w) \<and>
     (ch = messages_channel \<longrightarrow>
        run_agent env w0 patient pair message history =
          (Inr ''I'm having trouble right now. Let me try to help you anyway.'', w))"
proof (intro impI, elim conjE)
  assume key: "create_agent_llm env = Inr ()"
    and p: "passes ch env (recursion_limit env, Agent_node, 0, initial_state patient pair message history, w0)
                 (Suc n, Agent_node, turn, state, w)"
    and raises: "invoke_llm env turn (SystemMessage AGENT_SYSTEM_PROMPT # messages state) = Inl e"
  have ca: "call_agent env turn state = [AIMessage trouble_now []]"
    using key raises by (simp add: call_agent_def)
  have gs: "graph_step ch env Agent_node turn state w =
       Finished (merge_messages ch state (call_agent env turn state)) w"
    by (simp add: ca should_continue_trouble)
  have "run_graph ch env w0 patient pair message history =
          run_steps (Suc n) ch env Agent_node turn state w"
    using passes_run_steps [OF p] key by (simp add: run_graph_def create_agent_graph_def invoke_def)
  also have "\<dots> = (Inr (merge_messages ch state [AIMessage trouble_now []]), w)"
    using gs by (simp add: ca)
  finally have r: "run_agent_on ch env w0 patient pair message history = (Inr trouble_now, w)"
    by (simp add: run_agent_on_def final_response_trouble trouble_now_def)
  show "call_agent env turn state = [AIMessage ''I'm having trouble right now. Let me try to help you anyway.'' []] \<and>
     graph_step ch env Agent_node turn state w =
       Finished (merge_messages ch state (call_agent env turn state)) w \<and>
     run_agent_on ch env w0 patient pair message history =
       (Inr ''I'm having trouble right now. Let me try to help you anyway.'', w) \<and>
     (ch = messages_channel \<longrightarrow>
        run_agent env w0 patient pair message history =
          (Inr ''I'm having trouble right now. Let me try to help you anyway.'', w))"
  proof (intro conjI impI)
    show "call_agent env turn state = [AIMessage ''I'm having trouble right now. Let me try to help you anyway.'' []]"
      using ca by (simp add: trouble_now_def)
    show "graph_step ch env Agent_node turn state w =
       Finished (merge_messages ch state (call_agent env turn state)) w"
      by (rule gs)
    show "run_agent_on ch env w0 patient pair message history =
       (Inr ''I'm having trouble right now. Let me try to help you anyway.'', w)"
      using r by (simp add: trouble_now_def)
    assume "ch = messages_channel"
    then show "run_agent env w0 patient pair message history =
          (Inr ''I'm having trouble right now. Let me try to help you anyway.'', w)"
      using r by (simp add: trouble_now_def run_agent_def)
  qed
qed

lemma alert_step:
  "invoke_tool empty_world alert_request =
     (Inr ''I've notified your caregiver about this situation. Help is on the way. Please stay calm.'',
      empty_world\<lparr>emergency_alerts :=
        [\<lparr>alert_pair_id = ''pair-1'', alert_type = ''emergency'', reason = ''I fell'',
          timestamp = noon, status = ''pending''\<rparr>]\<rparr>)"
  by (simp add: invoke_tool_def alert_request_def get_arg_def send_emergency_alert_def
      send_emergency_alert_body_def get_supabase_client_def insert_alert_def next_outcome_def
      empty_world_def Let_def)

theorem provider_error_gives_fixed_reply_witness:
  "create_agent_llm dropping_env = Inr () \<and>
   passes messages_channel dropping_env
     (recursion_limit dropping_env, Agent_node, 0, initial_state ''patient-1'' ''pair-1'' ''I fell'' [], empty_world)
     (Suc 22, Agent_node, 1,
      \<lparr>messages = [alert_result], state_pair_id = ''pair-1'', patient_id = ''patient-1''\<rparr>, alerted_world) \<and>
   invoke_llm dropping_env 1 (SystemMessage AGENT_SYSTEM_PROMPT # [alert_result]) =
     Inl (OtherError ''503 service unavailable'') \<and>
   run_agent dropping_env empty_world ''patient-1'' ''pair-1'' ''I fell'' [] =
     (Inr ''I'm having trouble right now. Let me try to help you anyway.'', alerted_world)"
proof -
  let ?c0 = "(recursion_limit dropping_env, Agent_node, 0::nat, initial_state ''patient-1'' ''pair-1'' ''I fell'' [], empty_world)"
  let ?s1 = "\<lparr>messages = [AIMessage ''Let me get help.'' [alert_request]], state_pair_id = ''pair-1'', patient_id = ''patient-1''\<rparr>"
  let ?s2 = "\<lparr>messages = [alert_result], state_pair_id = ''pair-1'', patient_id = ''patient-1''\<rparr>"
  have key: "create_agent_llm dropping_env = Inr ()"
    by (simp add: create_agent_llm_def dropping_env_def)
  have lim: "recursion_limit dropping_env = Suc 24"
    by (simp add: dropping_env_def)
  have p0: "passes messages_channel dropping_env ?c0 (Suc 24, Agent_node, 0, initial_state ''patient-1'' ''pair-1'' ''I fell'' [], empty_world)"
    unfolding lim by (rule passes.start)
  have st1: "graph_step messages_channel dropping_env Agent_node 0 (initial_state ''patient-1'' ''pair-1'' ''I fell'' []) empty_world =
      Next_node Tools_node (Suc 0) ?s1 empty_world"
    by (simp add: call_agent_def create_agent_llm_def dropping_env_def dropping_llm_def merge_messages_def
        messages_channel_def should_continue_def initial_state_def Let_def)
  have p1: "passes messages_channel dropping_env ?c0 (Suc 23, Tools_node, Suc 0, ?s1, empty_world)"
    using passes.step [OF p0 st1] by simp
  have ro: "run_one empty_world alert_request = (alert_result, alerted_world)"
    using alert_step by (simp add: run_one_def tool_names_def alert_result_def alerted_world_def alert_request_def)
  have st2: "graph_step messages_channel dropping_env Tools_node (Suc 0) ?s1 empty_world =
      Next_node Agent_node (Suc 0) ?s2 alerted_world"
    by (simp add: tool_node_def ro merge_messages_def messages_channel_def)
  have p2: "passes messages_channel dropping_env ?c0 (Suc 22, Agent_node, 1, ?s2, alerted_world)"
    using passes.step [OF p1 st2] by simp
  have raises: "invoke_llm dropping_env 1 (SystemMessage AGENT_SYSTEM_PROMPT # messages ?s2) =
     Inl (OtherError ''503 service unavailable'')"
    by (simp add: dropping_env_def dropping_llm_def)
  note t = provider_error_gives_fixed_reply [of dropping_env messages_channel "''patient-1''" "''pair-1''" "''I fell''" "[]"
      empty_world 22 1 ?s2 alerted_world "OtherError ''503 service unavailable''",
      THEN mp, OF conjI [OF key conjI [OF p2 raises]]]
  have r: "run_agent dropping_env empty_world ''patient-1'' ''pair-1'' ''I fell'' [] =
     (Inr ''I'm having trouble right now. Let me try to help you anyway.'', alerted_world)"
    using t [THEN conjunct2, THEN conjunct2, THEN conjunct2] by simp
  have raises': "invoke_llm dropping_env 1 (SystemMessage AGENT_SYSTEM_PROMPT # [alert_result]) =
     Inl (OtherError ''503 service unavailable'')"
    using raises by simp
  show ?thesis
    by (intro conjI key p2 raises' r)
qed

subsection \<open>The round trip through one tool\<close>

lemma merge_nonempty:
  "new \<noteq> [] \<Longrightarrow> messages (merge_messages ch state new) \<noteq> [] \<and>
     last (messages (merge_messages ch state new)) = last new"
  by (cases ch) (simp_all add: merge_messages_def)

lemma should_continue_merge:
  "should_continue (merge_messages ch state [AIMessage text calls]) =
     Inr (if calls \<noteq> [] then To_tools else END)"
proof -
  obtain m ms where ms: "messages (merge_messages ch state [AIMessage text calls]) = m # ms"
    and l: "last (m # ms) = AIMessage text calls"
    using merge_nonempty [of "[AIMessage text calls]" ch state]
    by (cases "messages (merge_messages ch state [AIMessage text calls])") auto
  show ?thesis
    unfolding should_continue_def ms list.case l by simp
qed

lemma tool_node_merge:
  "tool_node w (merge_messages ch state [AIMessage text calls]) =
     (Inr (fst (run_tools w calls)), snd (run_tools w calls))"
proof -
  obtain m ms where ms: "messages (merge_messages ch state [AIMessage text calls]) = m # ms"
    and l: "last (m # ms) = AIMessage text calls"
    using merge_nonempty [of "[AIMessage text calls]" ch state]
    by (cases "messages (merge_messages ch state [AIMessage text calls])") auto
  show ?thesis
    unfolding tool_node_def ms list.case l by (simp split: prod.splits)
qed

lemma round_trip:
  assumes key: "create_agent_llm env = Inr ()"
    and lim: "3 \<le> recursion_limit env"
    and first: "invoke_llm env 0 (SystemMessage AGENT_SYSTEM_PROMPT #
                  messages (initial_state patient pair message history)) = Inr (text1, [call])"
    and tool: "run_one w call = (result, w1)"
    and second: "invoke_llm env 1 (SystemMessage AGENT_SYSTEM_PROMPT #
                  messages (merge_messages ch
                    (merge_messages ch (initial_state patient pair message history) [AIMessage text1 [call]])
                    [result])) = Inr (text2, [])"
    and nonempty: "text2 \<noteq> []"
  shows "run_agent_on ch env w patient pair message history = (Inr text2, w1)"
proof -
  let ?s0 = "initial_state patient pair message history"
  let ?s1 = "merge_messages ch ?s0 [AIMessage text1 [call]]"
  let ?s2 = "merge_messages ch ?s1 [result]"
  let ?s3 = "merge_messages ch ?s2 [AIMessage text2 []]"
  obtain n where "recursion_limit env = 3 + n"
    using lim le_Suc_ex by blast
  then have n: "recursion_limit env = Suc (Suc (Suc n))"
    by simp
  have c0: "call_agent env 0 ?s0 = [AIMessage text1 [call]]"
    using key first by (simp add: call_agent_def)
  have g0: "graph_step ch env Agent_node 0 ?s0 w = Next_node Tools_node (Suc 0) ?s1 w"
    by (simp add: c0 should_continue_merge)
  have rt: "run_tools w [call] = ([result], w1)"
    using tool by simp
  have g1: "graph_step ch env Tools_node (Suc 0) ?s1 w = Next_node Agent_node (Suc 0) ?s2 w1"
    by (simp add: tool_node_merge tool)
  have c2: "call_agent env (Suc 0) ?s2 = [AIMessage text2 []]"
    using key second by (simp add: call_agent_def)
  have g2: "graph_step ch env Agent_node (Suc 0) ?s2 w1 = Finished ?s3 w1"
    by (simp add: c2 should_continue_merge)
  have "run_graph ch env w patient pair message history = (Inr ?s3, w1)"
    using key by (simp add: run_graph_def create_agent_graph_def invoke_def n g0 g1 g2 del: graph_step.simps)
  then show ?thesis
    by (simp add: run_agent_on_def final_response_trouble nonempty)
qed

lemma parse_christmas:
  "strptime (''25 Dec 2025'' @ '' '' @ ''08:00 PM'') =
     Inr \<lparr>year = 2025, month = 12, day = 25, hour = 20, minute = 0, second = 0, microsecond = 0\<rparr>"
  by code_simp

lemma reminder_step: "run_one empty_world reminder_request = (reminder_result, reminded_world)"
proof -
  have serves: "store_serves empty_world"
    by (simp add: store_serves_def empty_world_def)
  have "create_reminder empty_world ''pair-1'' ''Take medicine'' ''25 Dec 2025'' ''08:00 PM'' =
          (Inr ''Reminder created successfully! I'll remind you about 'Take medicine' on 25 Dec 2025 at 08:00 PM.'',
           reminded_world)"
    unfolding create_reminder_parse_ok [OF parse_christmas serves]
    by (simp add: empty_world_def reminded_world_def apostrophe_def)
  then show ?thesis
    by (simp add: run_one_def invoke_tool_def get_arg_def reminder_request_def tool_names_def
        reminder_result_def)
qed

text \<open>
  Claim C1, at a stub provider of the kind the claim is about (\<open>echo_llm\<close>: one
  create\_reminder request on the first turn, plain text and no request afterwards).
  The tool runs once (the store has the one new reminder) and the text of the second
  turn is returned. But the tool result is not appended to the message sequence: it
  replaces it. With the state class of the source the second model turn is given the
  system prompt and the tool result only; the user's message and the assistant message
  with the request are gone. With a reducer on \<^verbatim>\<open>messages\<close> the same run gives the
  second turn the whole sequence.
\<close>

theorem tool_result_replaces_conversation:
  "run_agent echo_env empty_world ''patient-1'' ''pair-1'' ''remind me to take my medicine at 8pm on 25 Dec 2025'' [] =
     (Inr ''I was given: system, tool'', reminded_world) \<and>
   run_agent_on Appending echo_env empty_world ''patient-1'' ''pair-1''
       ''remind me to take my medicine at 8pm on 25 Dec 2025'' [] =
     (Inr ''I was given: system, user, assistant, tool'', reminded_world) \<and>
   reminders reminded_world =
     [\<lparr>reminder_id = 1, pair_id = ''pair-1'', title = ''Take medicine'',
       date = ''25 Dec 2025'', time = ''08:00 PM''\<rparr>]"
proof -
  have key: "create_agent_llm echo_env = Inr ()"
    by (simp add: create_agent_llm_def echo_env_def)
  have lim: "3 \<le> recursion_limit echo_env"
    by (simp add: echo_env_def)
  have first: "\<And>msgs. invoke_llm echo_env 0 msgs = Inr ([], [reminder_request])"
    by (simp add: echo_env_def echo_llm_def)
  have second: "\<And>msgs. invoke_llm echo_env (Suc 0) msgs = Inr (''I was given: '' @ join '', '' (map kind msgs), [])"
    by (simp add: echo_env_def echo_llm_def)
  have a: "run_agent_on Last_value echo_env empty_world ''patient-1'' ''pair-1''
             ''remind me to take my medicine at 8pm on 25 Dec 2025'' [] =
           (Inr ''I was given: system, tool'', reminded_world)"
    by (rule round_trip [OF key lim first reminder_step])
       (simp_all add: second merge_messages_def initial_state_def reminder_result_def)
  have b: "run_agent_on Appending echo_env empty_world ''patient-1'' ''pair-1''
             ''remind me to take my medicine at 8pm on 25 Dec 2025'' [] =
           (Inr ''I was given: system, user, assistant, tool'', reminded_world)"
    by (rule round_trip [OF key lim first reminder_step])
       (simp_all add: second merge_messages_def initial_state_def reminder_result_def)
  show ?thesis
    using a b by (simp add: run_agent_def messages_channel_def reminded_world_def)
qed

section \<open>Properties of the transcription paths\<close>

lemma strip_empty_iff: "(strip s = []) = (\<forall>c \<in> set s. is_space c)"
proof -
  have "(strip s = []) = (dropWhile is_space (rev (dropWhile is_space s)) = [])"
    by (simp add: strip_def)
  also have "\<dots> = (\<forall>c \<in> set (dropWhile is_space s). is_space c)"
    by simp
  also have "\<dots> = (\<forall>c \<in> set s. is_space c)"
  proof
    assume a: "\<forall>c \<in> set (dropWhile is_space s). is_space c"
    show "\<forall>c \<in> set s. is_space c"
    proof (cases "dropWhile is_space s")
      case Nil
      then show ?thesis by simp
    next
      case (Cons x xs)
      then have "\<not> is_space x" using hd_dropWhile [of is_space s] by simp
      moreover have "is_space x" using a Cons by simp
      ultimately show ?thesis by simp
    qed
  next
    assume "\<forall>c \<in> set s. is_space c"
    then show "\<forall>c \<in> set (dropWhile is_space s). is_space c"
      by (meson set_dropWhileD)
  qed
  finally show ?thesis .
qed

text \<open>
  The offline path does what the claim says: it never returns the empty text, and when
  the engine yields a text of blanks only it returns \<^verbatim>\<open>None\<close>.
\<close>

lemma offline_never_empty: "transcribe_audio_from_bytes env audio_bytes \<noteq> Some []"
  by (simp add: transcribe_audio_from_bytes_def from_bytes_body_def Let_def
      split: option.splits sum.splits)

lemma offline_blank_is_absent:
  assumes "load_audio env audio_bytes = Inr samples" and "model_transcribe env samples = Inr raw"
    and "\<forall>c \<in> set raw. is_space c"
  shows "transcribe_audio_from_bytes env audio_bytes = None"
proof -
  have "strip raw = []"
    using assms(3) by (simp add: strip_empty_iff)
  then show ?thesis
    using assms(1,2)
    by (simp add: transcribe_audio_from_bytes_def from_bytes_body_def Let_def split: option.splits)
qed

text \<open>
  Claim C9 at audio in which the engine finds no speech. The offline path returns
  \<^verbatim>\<open>None\<close>. The online path returns what the engine yields as it is: the empty text
  for the empty text, blanks for blanks, both through \<^verbatim>\<open>transcribe_audio\<close> and
  through \<^verbatim>\<open>transcribe_audio_bytes\<close>.
\<close>

theorem online_path_returns_empty_text:
  "transcribe_audio silence_online ''voice.wav'' = Some [] \<and>
   transcribe_audio_bytes silence_online ''RIFF-silence'' = Some [] \<and>
   transcribe_audio blank_online ''voice.wav'' = Some ''  '' \<and>
   transcribe_audio silence_offline ''voice.wav'' = None \<and>
   transcribe_audio_bytes silence_offline ''RIFF-silence'' = None"
  by (simp add: transcribe_audio_def transcribe_audio_bytes_def transcribe_opened_def
      transcribe_audio_from_bytes_def from_bytes_body_def silence_online_def silence_offline_def
      blank_online_def strip_def)

end
